theory Spec2Isabelle
  imports Main
begin

section \<open>JavaScript strings and request values\<close>

text \<open>
  The server is an Express application: every handler destructures the parsed JSON body,
  builds an OpenSSL configuration text from a template literal, and shells out to
  \<^verbatim>\<open>openssl\<close>. A body field is modelled as \<open>string option\<close>: \<open>None\<close> is a field
  that is absent (\<^verbatim>\<open>undefined\<close>), \<open>Some s\<close> a JSON string. A character is one code
  unit below 256.
\<close>

text \<open>JavaScript truthiness of a string-valued field: absent and the empty string are falsy.\<close>

definition truthy :: "string option \<Rightarrow> bool" where
  "truthy v = (case v of None \<Rightarrow> False | Some s \<Rightarrow> s \<noteq> [])"

text \<open>Interpolation \<^verbatim>\<open>${x}\<close> of a field into a template literal.\<close>

definition interp :: "string option \<Rightarrow> string" where
  "interp v = (case v of None \<Rightarrow> ''undefined'' | Some s \<Rightarrow> s)"

text \<open>A destructuring default \<^verbatim>\<open>{ x = d }\<close> applies only when the field is absent.\<close>

definition default_to :: "'a \<Rightarrow> 'a option \<Rightarrow> 'a" where
  "default_to d v = (case v of None \<Rightarrow> d | Some s \<Rightarrow> s)"

text \<open>
  \<^verbatim>\<open>String.prototype.trim\<close> removes white space and line terminators from both ends:
  TAB, LF, VT, FF, CR, SPACE and NO-BREAK SPACE among the code units below 256.
\<close>

definition js_whitespace :: "char \<Rightarrow> bool" where
  "js_whitespace c = ((of_char c :: nat) \<in> set [9, 10, 11, 12, 13, 32, 160])"

definition trim :: "string \<Rightarrow> string" where
  "trim s = rev (dropWhile js_whitespace (rev (dropWhile js_whitespace s)))"

text \<open>
  Decimal rendering of a non-negative integer, as \<^verbatim>\<open>${n}\<close> and \<^verbatim>\<open>n.toString()\<close> give
  it for the integers below \<open>10\<^sup>2\<^sup>1\<close>. It renders the clock value \<^verbatim>\<open>Date.now()\<close> and
  the array index \<^verbatim>\<open>index + 1\<close>, which are such integers.
\<close>

definition digit_char :: "nat \<Rightarrow> char" where
  "digit_char d = ''0123456789'' ! d"

fun show_nat :: "nat \<Rightarrow> string" where
  "show_nat n = (if n < 10 then [digit_char n] else show_nat (n div 10) @ [digit_char (n mod 10)])"

declare show_nat.simps [simp del]

text \<open>
  The field \<^verbatim>\<open>validityDays\<close> is only ever interpolated into a shell command, and the
  handlers check neither its type nor its content: a JSON number (a non-negative
  integer below \<open>10\<^sup>2\<^sup>1\<close>, rendered in full) or a JSON string, rendered as it is.
\<close>

datatype js_value = JNumber nat | JString string

fun js_text :: "js_value \<Rightarrow> string" where
  "js_text (JNumber n) = show_nat n"
| "js_text (JString s) = s"

text \<open>\<^verbatim>\<open>Array.prototype.join\<close>.\<close>

fun join :: "string \<Rightarrow> string list \<Rightarrow> string" where
  "join sep [] = []"
| "join sep [x] = x"
| "join sep (x # y # ys) = x @ sep @ join sep (y # ys)"

definition newline :: string where
  "newline = [CHR 0x0A]"

section \<open>Subject Alternative Names\<close>

text \<open>
  An element of \<^verbatim>\<open>subjectAltNames\<close> is an object \<^verbatim>\<open>{ type, value }\<close>. An absent
  \<^verbatim>\<open>value\<close> is falsy like the empty string, so both are the empty \<open>san_value\<close>.
\<close>

record san =
  san_type :: string
  san_value :: string

text \<open>The filter callback \<^verbatim>\<open>san => san.value && san.value.trim()\<close>.\<close>

definition san_kept :: "san \<Rightarrow> bool" where
  "san_kept s = (san_value s \<noteq> [] \<and> trim (san_value s) \<noteq> [])"

text \<open>
  The map callback
  \<^verbatim>\<open>(san, index) => `${san.type}.${index + 1} = ${san.value.trim()}`\<close>;
  \<open>index\<close> is the position in the filtered array.
\<close>

definition render_san :: "nat \<times> san \<Rightarrow> string" where
  "render_san p = (case p of (index, s) \<Rightarrow>
     san_type s @ ''.'' @ show_nat (index + 1) @ '' = '' @ trim (san_value s))"

text \<open>The array \<^verbatim>\<open>subjectAltNames.filter(...).map(...)\<close>, before it is joined.\<close>

definition san_lines :: "san list \<Rightarrow> string list" where
  "san_lines subjectAltNames = map render_san (enumerate 0 (filter san_kept subjectAltNames))"

definition sanEntries :: "san list \<Rightarrow> string" where
  "sanEntries subjectAltNames = join newline (san_lines subjectAltNames)"

text \<open>
  The block that follows the extension section of a broker configuration:
  \<^verbatim>\<open>sanSection\<close> stays \<^verbatim>\<open>''\<close> unless the array is non-empty and the joined entries
  are a non-empty string; then it is the three template lines: an empty one, the
  \<^verbatim>\<open>[ alt_names ]\<close> header and the entries. It is kept as the list of its lines; the
  empty string is the single empty line.
\<close>

definition sanSection :: "san list \<Rightarrow> string list" where
  "sanSection subjectAltNames =
     (if subjectAltNames \<noteq> [] then
        (if sanEntries subjectAltNames \<noteq> [] then
           [[], ''[ alt_names ]''] @ san_lines subjectAltNames
         else [[]])
      else [[]])"

text \<open>
  The template line
  \<^verbatim>\<open>${subjectAltNames && subjectAltNames.length > 0 ? 'subjectAltName = @alt_names' : ''}\<close>.
\<close>

definition sanClause :: "san list \<Rightarrow> string" where
  "sanClause subjectAltNames =
     (if subjectAltNames \<noteq> [] then ''subjectAltName = @alt_names'' else [])"

section \<open>Request bodies\<close>

record subject_body =
  curve :: "string option"
  commonName :: "string option"
  organization :: "string option"
  organizationalUnit :: "string option"
  country :: "string option"
  state :: "string option"
  locality :: "string option"
  email :: "string option"

record csr_body = subject_body +
  serialNumber :: "string option"

record broker_body = subject_body +
  subjectAltNames :: "san list"

record ca_body = subject_body +
  validityDays :: "js_value option"

record sign_body =
  csr :: "string option"
  caKey :: "string option"
  caCert :: "string option"
  sign_validityDays :: "js_value option"

record sign_broker_body = sign_body +
  sign_subjectAltNames :: "san list"

section \<open>OpenSSL configuration templates\<close>

text \<open>
  Each template literal is the list of its lines, in order, with the interpolated values
  placed verbatim as the source does (nothing is escaped); the text written to the
  configuration file is the lines joined by line feeds. Every literal starts and ends
  with a line feed, hence the empty first and last lines.
\<close>

definition config_text :: "string list \<Rightarrow> string" where
  "config_text ls = join newline ls"

text \<open>
  The lines of a written text: the pieces between its line feeds. An interpolated value
  that holds a line feed spreads over several lines of the file.
\<close>

fun text_lines :: "string \<Rightarrow> string list" where
  "text_lines [] = [[]]"
| "text_lines (c # cs) =
     (if c = CHR 0x0A then [] # text_lines cs
      else (case text_lines cs of [] \<Rightarrow> [[c]] | l # ls \<Rightarrow> (c # l) # ls))"

text \<open>\<^verbatim>\<open>opensslConfig\<close> of \<^verbatim>\<open>/api/generate-csr\<close>.\<close>

definition csr_opensslConfig :: "csr_body \<Rightarrow> string list" where
  "csr_opensslConfig b =
    [ [],
      ''[ req ]'',
      ''default_bits       = 2048'',
      ''distinguished_name = req_distinguished_name'',
      ''req_extensions     = v3_req'',
      ''prompt             = no'',
      [],
      ''[ req_distinguished_name ]'',
      ''C  = '' @ interp (country b),
      ''ST = '' @ interp (state b),
      ''L  = '' @ interp (locality b),
      ''O  = '' @ interp (organization b),
      (if truthy (organizationalUnit b) then ''OU = '' @ interp (organizationalUnit b) else []),
      ''CN = '' @ interp (commonName b),
      (if truthy (serialNumber b) then ''serialNumber = '' @ interp (serialNumber b) else []),
      (if truthy (email b) then ''emailAddress = '' @ interp (email b) else []),
      [],
      ''[ v3_req ]'',
      ''keyUsage = critical, digitalSignature, keyAgreement'',
      ''extendedKeyUsage = clientAuth'',
      [] ]"

text \<open>\<^verbatim>\<open>opensslConfig\<close> of \<^verbatim>\<open>/api/generate-broker-csr\<close>.\<close>

definition broker_opensslConfig :: "broker_body \<Rightarrow> string list" where
  "broker_opensslConfig b =
    [ [],
      ''[ req ]'',
      ''default_bits       = 2048'',
      ''distinguished_name = req_distinguished_name'',
      ''req_extensions     = v3_req'',
      ''prompt             = no'',
      [],
      ''[ req_distinguished_name ]'',
      (if truthy (country b) then ''C  = '' @ interp (country b) else []),
      (if truthy (state b) then ''ST = '' @ interp (state b) else []),
      (if truthy (locality b) then ''L  = '' @ interp (locality b) else []),
      (if truthy (organization b) then ''O  = '' @ interp (organization b) else []),
      (if truthy (organizationalUnit b) then ''OU = '' @ interp (organizationalUnit b) else []),
      ''CN = '' @ interp (commonName b),
      (if truthy (email b) then ''emailAddress = '' @ interp (email b) else []),
      [],
      ''[ v3_req ]'',
      ''keyUsage = critical, digitalSignature, keyEncipherment, keyAgreement'',
      ''extendedKeyUsage = serverAuth'',
      sanClause (subjectAltNames b) ]
    @ sanSection (subjectAltNames b)
    @ [ [] ]"

text \<open>
  The destructuring of \<^verbatim>\<open>/api/generate-root-ca\<close> with its defaults; the result holds
  the variables the handler then works with.
\<close>

definition ca_defaults :: "ca_body \<Rightarrow> ca_body" where
  "ca_defaults b = b
     \<lparr> curve := Some (default_to ''prime256v1'' (curve b)),
       commonName := Some (default_to ''MQTT Root CA'' (commonName b)),
       organization := Some (default_to ''MQTT Organization'' (organization b)),
       country := Some (default_to ''US'' (country b)),
       state := Some (default_to ''California'' (state b)),
       locality := Some (default_to ''San Francisco'' (locality b)),
       validityDays := Some (default_to (JNumber 3650) (validityDays b)) \<rparr>"

text \<open>\<^verbatim>\<open>opensslConfig\<close> of \<^verbatim>\<open>/api/generate-root-ca\<close>, over the destructured variables.\<close>

definition ca_opensslConfig :: "ca_body \<Rightarrow> string list" where
  "ca_opensslConfig v =
    [ [],
      ''[ req ]'',
      ''default_bits       = 2048'',
      ''distinguished_name = req_distinguished_name'',
      ''x509_extensions    = v3_ca'',
      ''prompt             = no'',
      [],
      ''[ req_distinguished_name ]'',
      ''C  = '' @ interp (country v),
      ''ST = '' @ interp (state v),
      ''L  = '' @ interp (locality v),
      ''O  = '' @ interp (organization v),
      (if truthy (organizationalUnit v) then ''OU = '' @ interp (organizationalUnit v) else []),
      ''CN = '' @ interp (commonName v),
      (if truthy (email v) then ''emailAddress = '' @ interp (email v) else []),
      [],
      ''[ v3_ca ]'',
      ''subjectKeyIdentifier = hash'',
      ''authorityKeyIdentifier = keyid:always,issuer'',
      ''basicConstraints = critical,CA:true'',
      ''keyUsage = critical, digitalSignature, cRLSign, keyCertSign'',
      [] ]"

text \<open>
  \<^verbatim>\<open>signingConfig\<close> of \<^verbatim>\<open>/api/sign-client-cert\<close>. The literal has no interpolation:
  the body is not used.
\<close>

definition client_signingConfig :: "sign_body \<Rightarrow> string list" where
  "client_signingConfig b =
    [ [],
      ''[ v3_client ]'',
      ''basicConstraints = CA:FALSE'',
      ''subjectKeyIdentifier = hash'',
      ''authorityKeyIdentifier = keyid,issuer'',
      ''keyUsage = critical, digitalSignature, keyAgreement'',
      ''extendedKeyUsage = clientAuth'',
      [] ]"

text \<open>\<^verbatim>\<open>signingConfig\<close> of \<^verbatim>\<open>/api/sign-broker-cert\<close>.\<close>

definition broker_signingConfig :: "sign_broker_body \<Rightarrow> string list" where
  "broker_signingConfig b =
    [ [],
      ''[ v3_broker ]'',
      ''basicConstraints = CA:FALSE'',
      ''subjectKeyIdentifier = hash'',
      ''authorityKeyIdentifier = keyid,issuer'',
      ''keyUsage = critical, digitalSignature, keyEncipherment, keyAgreement'',
      ''extendedKeyUsage = serverAuth'',
      sanClause (sign_subjectAltNames b) ]
    @ sanSection (sign_subjectAltNames b)
    @ [ [] ]"

subsection \<open>Reading a configuration\<close>

text \<open>
  A reading aid for template line lists, not the configuration reader of \<^verbatim>\<open>openssl\<close>:
  the non-empty lines after the first header \<^verbatim>\<open>[ name ]\<close> up to the next header, as
  they stand (comments and outer blanks kept, a later block of the same name not looked
  at). An entry \<^verbatim>\<open>name = value\<close> is read as a pair. It gives the lines of the written
  text when no interpolated value holds a line feed.
\<close>

definition is_header :: "string \<Rightarrow> bool" where
  "is_header l = (case l of [] \<Rightarrow> False | c # cs \<Rightarrow> c = CHR ''['')"

definition section_entries :: "string \<Rightarrow> string list \<Rightarrow> string list" where
  "section_entries name ls =
     filter (\<lambda>l. l \<noteq> [])
       (takeWhile (\<lambda>l. \<not> is_header l)
         (drop 1 (dropWhile (\<lambda>l. l \<noteq> ''[ '' @ name @ '' ]'') ls)))"

definition entry_name :: "string \<Rightarrow> string" where
  "entry_name l = takeWhile (\<lambda>c. c \<noteq> CHR '' '') l"

definition entry_value :: "string \<Rightarrow> string" where
  "entry_value l = drop 2 (dropWhile (\<lambda>c. c \<noteq> CHR ''='') l)"

definition entry :: "string \<Rightarrow> string \<times> string" where
  "entry l = (entry_name l, entry_value l)"

section \<open>Effects: the file system, the clock and the shell\<close>

text \<open>
  What the handlers do to the outside is explicit state passing over a world \<open>'w\<close>. A
  computation returns \<open>Inl\<close> of the thrown error or \<open>Inr\<close> of its value, with the new
  world. The services of Node and of \<^verbatim>\<open>openssl\<close> are parameters: the results below hold
  for every behaviour of the file system and of the shell.
\<close>

datatype js_error = Error (message: string)

type_synonym ('w, 'a) io = "'w \<Rightarrow> (js_error + 'a) \<times> 'w"

definition io_return :: "'a \<Rightarrow> ('w, 'a) io" where
  "io_return a w = (Inr a, w)"

definition io_throw :: "js_error \<Rightarrow> ('w, 'a) io" where
  "io_throw e w = (Inl e, w)"

definition io_bind :: "('w, 'a) io \<Rightarrow> ('a \<Rightarrow> ('w, 'b) io) \<Rightarrow> ('w, 'b) io" where
  "io_bind m f w = (case m w of (Inl e, w') \<Rightarrow> (Inl e, w') | (Inr a, w') \<Rightarrow> f a w')"

text \<open>\<^verbatim>\<open>try { m } catch (error) { h(error) }\<close>.\<close>

definition try_catch :: "('w, 'a) io \<Rightarrow> (js_error \<Rightarrow> ('w, 'a) io) \<Rightarrow> ('w, 'a) io" where
  "try_catch m h w = (case m w of (Inl e, w') \<Rightarrow> h e w' | (Inr a, w') \<Rightarrow> (Inr a, w'))"

text \<open>\<^verbatim>\<open>try { m } catch (e) { }\<close>: whatever \<open>m\<close> throws is dropped.\<close>

definition swallow :: "('w, unit) io \<Rightarrow> ('w, unit) io" where
  "swallow m w = (case m w of (Inl e, w') \<Rightarrow> (Inr (), w') | (Inr a, w') \<Rightarrow> (Inr (), w'))"

record 'w env =
  dateNow :: "'w \<Rightarrow> nat"
  execAsync :: "string \<Rightarrow> ('w, string) io"
  mkdirSync :: "string \<Rightarrow> ('w, unit) io"
  writeFileSync :: "string \<Rightarrow> string \<Rightarrow> ('w, unit) io"
  readFileSync :: "string \<Rightarrow> ('w, string) io"
  unlinkSync :: "string \<Rightarrow> ('w, unit) io"
  rmdirSync :: "string \<Rightarrow> ('w, unit) io"
  existsSync :: "string \<Rightarrow> 'w \<Rightarrow> bool"

text \<open>\<^verbatim>\<open>if (fs.existsSync(p)) fs.unlinkSync(p)\<close> and the same with \<^verbatim>\<open>rmdirSync\<close>.\<close>

definition unlink_if_exists :: "'w env \<Rightarrow> string \<Rightarrow> ('w, unit) io" where
  "unlink_if_exists env p w = (if existsSync env p w then unlinkSync env p w else (Inr (), w))"

definition rmdir_if_exists :: "'w env \<Rightarrow> string \<Rightarrow> ('w, unit) io" where
  "rmdir_if_exists env p w = (if existsSync env p w then rmdirSync env p w else (Inr (), w))"

text \<open>
  \<^verbatim>\<open>path.join\<close> on components that need no normalisation: \<^verbatim>\<open>__dirname\<close> is an absolute,
  normalised directory other than the root, and the other components are fixed names and
  the digits of the clock.
\<close>

definition path_join :: "string list \<Rightarrow> string" where
  "path_join parts = join ''/'' parts"

section \<open>Responses\<close>

text \<open>
  \<^verbatim>\<open>res.status(n).json({...})\<close>: the status and the fields of the object in order;
  \<^verbatim>\<open>res.json\<close> alone answers 200.
\<close>

datatype response = Response (status: nat) (fields: "(string \<times> string) list")

text \<open>
  The outer \<^verbatim>\<open>try\<close>/\<^verbatim>\<open>catch\<close> of every handler: an error that reaches it is answered
  with status 500, the handler's label and the error's message.
\<close>

definition respond :: "string \<Rightarrow> ('w, response) io \<Rightarrow> 'w \<Rightarrow> response \<times> 'w" where
  "respond label m w =
     (case m w of
        (Inr r, w') \<Rightarrow> (r, w')
      | (Inl error, w') \<Rightarrow>
          (Response 500 [(''error'', label), (''message'', message error)], w'))"

section \<open>The handlers\<close>

subsection \<open>\<^verbatim>\<open>POST /api/generate-csr\<close>\<close>

text \<open>
  The handler validates, makes the scratch directory named by the clock, runs the block
  and answers. The \<^verbatim>\<open>subject\<close> string one version of the block builds is never used
  and is left out, as is the logging.
\<close>

definition csr_tempDir :: "string \<Rightarrow> nat \<Rightarrow> string" where
  "csr_tempDir dirname now = path_join [dirname, ''temp'', show_nat now]"

definition csr_try :: "'w env \<Rightarrow> csr_body \<Rightarrow> string \<Rightarrow> ('w, response) io" where
  "csr_try env b tempDir =
    (let privateKeyPath = path_join [tempDir, ''private-key.pem''];
         csrPath = path_join [tempDir, ''csr.pem''];
         configPath = path_join [tempDir, ''openssl.cnf'']
     in
     io_bind (execAsync env (''openssl ecparam -name '' @ default_to ''prime256v1'' (curve b)
                @ '' -genkey -noout -out '' @ privateKeyPath)) (\<lambda>_.
     io_bind (writeFileSync env configPath (config_text (csr_opensslConfig b))) (\<lambda>_.
     io_bind (execAsync env (''openssl req -new -key '' @ privateKeyPath @ '' -out '' @ csrPath
                @ '' -config '' @ configPath)) (\<lambda>_.
     io_bind (readFileSync env privateKeyPath) (\<lambda>privateKey.
     io_bind (readFileSync env csrPath) (\<lambda>csrPem.
     io_bind (execAsync env (''openssl ec -in '' @ privateKeyPath @ '' -pubout 2>/dev/null'')) (\<lambda>publicKey.
     io_bind (execAsync env (''openssl req -text -noout -in '' @ csrPath)) (\<lambda>csrText.
     io_bind (unlinkSync env privateKeyPath) (\<lambda>_.
     io_bind (unlinkSync env csrPath) (\<lambda>_.
     io_bind (unlinkSync env configPath) (\<lambda>_.
     io_bind (rmdirSync env tempDir) (\<lambda>_.
     io_return (Response 200
       [(''success'', ''true''), (''privateKey'', privateKey), (''publicKey'', publicKey),
        (''csr'', csrPem), (''csrDetails'', csrText)])))))))))))))"

definition csr_cleanup :: "'w env \<Rightarrow> string \<Rightarrow> ('w, unit) io" where
  "csr_cleanup env tempDir =
     io_bind (unlink_if_exists env (path_join [tempDir, ''private-key.pem''])) (\<lambda>_.
     io_bind (unlink_if_exists env (path_join [tempDir, ''csr.pem''])) (\<lambda>_.
     io_bind (unlink_if_exists env (path_join [tempDir, ''openssl.cnf''])) (\<lambda>_.
     rmdir_if_exists env tempDir)))"

definition csr_required :: "csr_body \<Rightarrow> bool" where
  "csr_required b =
     (truthy (commonName b) \<and> truthy (organization b) \<and> truthy (country b)
      \<and> truthy (state b) \<and> truthy (locality b))"

definition generate_csr :: "'w env \<Rightarrow> string \<Rightarrow> csr_body \<Rightarrow> 'w \<Rightarrow> response \<times> 'w" where
  "generate_csr env dirname b w =
     respond ''Failed to generate CSR''
       (if \<not> csr_required b then
          io_return (Response 400 [(''error'', ''Missing required fields'')])
        else
          (let tempDir = csr_tempDir dirname (dateNow env w) in
           io_bind (mkdirSync env tempDir) (\<lambda>_.
           try_catch (csr_try env b tempDir) (\<lambda>error.
             io_bind (swallow (csr_cleanup env tempDir)) (\<lambda>_. io_throw error))))) w"

subsection \<open>\<^verbatim>\<open>POST /api/generate-broker-csr\<close>\<close>

definition broker_tempDir :: "string \<Rightarrow> nat \<Rightarrow> string" where
  "broker_tempDir dirname now = path_join [dirname, ''temp'', ''broker-'' @ show_nat now]"

definition broker_try :: "'w env \<Rightarrow> broker_body \<Rightarrow> string \<Rightarrow> ('w, response) io" where
  "broker_try env b tempDir =
    (let privateKeyPath = path_join [tempDir, ''broker-private-key.pem''];
         csrPath = path_join [tempDir, ''broker-csr.pem''];
         configPath = path_join [tempDir, ''broker-openssl.cnf'']
     in
     io_bind (execAsync env (''openssl ecparam -name '' @ default_to ''prime256v1'' (curve b)
                @ '' -genkey -noout -out '' @ privateKeyPath)) (\<lambda>_.
     io_bind (writeFileSync env configPath (config_text (broker_opensslConfig b))) (\<lambda>_.
     io_bind (execAsync env (''openssl req -new -key '' @ privateKeyPath @ '' -out '' @ csrPath
                @ '' -config '' @ configPath)) (\<lambda>_.
     io_bind (readFileSync env privateKeyPath) (\<lambda>privateKey.
     io_bind (readFileSync env csrPath) (\<lambda>csrPem.
     io_bind (execAsync env (''openssl ec -in '' @ privateKeyPath @ '' -pubout 2>/dev/null'')) (\<lambda>publicKey.
     io_bind (execAsync env (''openssl req -text -noout -in '' @ csrPath)) (\<lambda>csrText.
     io_bind (unlinkSync env privateKeyPath) (\<lambda>_.
     io_bind (unlinkSync env csrPath) (\<lambda>_.
     io_bind (unlinkSync env configPath) (\<lambda>_.
     io_bind (rmdirSync env tempDir) (\<lambda>_.
     io_return (Response 200
       [(''success'', ''true''), (''privateKey'', privateKey), (''publicKey'', publicKey),
        (''csr'', csrPem), (''csrDetails'', csrText), (''type'', ''broker'')])))))))))))))"

definition broker_cleanup :: "'w env \<Rightarrow> string \<Rightarrow> ('w, unit) io" where
  "broker_cleanup env tempDir =
     io_bind (unlink_if_exists env (path_join [tempDir, ''broker-private-key.pem''])) (\<lambda>_.
     io_bind (unlink_if_exists env (path_join [tempDir, ''broker-csr.pem''])) (\<lambda>_.
     io_bind (unlink_if_exists env (path_join [tempDir, ''broker-openssl.cnf''])) (\<lambda>_.
     rmdir_if_exists env tempDir)))"

definition generate_broker_csr ::
  "'w env \<Rightarrow> string \<Rightarrow> broker_body \<Rightarrow> 'w \<Rightarrow> response \<times> 'w" where
  "generate_broker_csr env dirname b w =
     respond ''Failed to generate broker CSR''
       (if \<not> truthy (commonName b) then
          io_return (Response 400
            [(''error'', ''Common Name (CN) is required for broker certificate'')])
        else
          (let tempDir = broker_tempDir dirname (dateNow env w) in
           io_bind (mkdirSync env tempDir) (\<lambda>_.
           try_catch (broker_try env b tempDir) (\<lambda>error.
             io_bind (swallow (broker_cleanup env tempDir)) (\<lambda>_. io_throw error))))) w"

subsection \<open>\<^verbatim>\<open>POST /api/generate-root-ca\<close>\<close>

definition ca_tempDir :: "string \<Rightarrow> nat \<Rightarrow> string" where
  "ca_tempDir dirname now = path_join [dirname, ''temp'', ''ca-'' @ show_nat now]"

definition ca_try :: "'w env \<Rightarrow> ca_body \<Rightarrow> string \<Rightarrow> ('w, response) io" where
  "ca_try env v tempDir =
    (let caKeyPath = path_join [tempDir, ''ca-key.pem''];
         caCertPath = path_join [tempDir, ''ca-cert.pem''];
         configPath = path_join [tempDir, ''ca-openssl.cnf'']
     in
     io_bind (execAsync env (''openssl ecparam -name '' @ interp (curve v)
                @ '' -genkey -noout -out '' @ caKeyPath)) (\<lambda>_.
     io_bind (writeFileSync env configPath (config_text (ca_opensslConfig v))) (\<lambda>_.
     io_bind (execAsync env (''openssl req -new -x509 -days ''
                @ js_text (default_to (JNumber 3650) (validityDays v)) @ '' -key '' @ caKeyPath
                @ '' -out '' @ caCertPath @ '' -config '' @ configPath)) (\<lambda>_.
     io_bind (readFileSync env caKeyPath) (\<lambda>caKeyPem.
     io_bind (readFileSync env caCertPath) (\<lambda>caCertPem.
     io_bind (execAsync env (''openssl x509 -in '' @ caCertPath @ '' -text -noout'')) (\<lambda>certText.
     io_bind (unlinkSync env caKeyPath) (\<lambda>_.
     io_bind (unlinkSync env caCertPath) (\<lambda>_.
     io_bind (unlinkSync env configPath) (\<lambda>_.
     io_bind (rmdirSync env tempDir) (\<lambda>_.
     io_return (Response 200
       [(''success'', ''true''), (''caKey'', caKeyPem), (''caCert'', caCertPem),
        (''certDetails'', certText)]))))))))))))"

definition ca_cleanup :: "'w env \<Rightarrow> string \<Rightarrow> ('w, unit) io" where
  "ca_cleanup env tempDir =
     io_bind (unlink_if_exists env (path_join [tempDir, ''ca-key.pem''])) (\<lambda>_.
     io_bind (unlink_if_exists env (path_join [tempDir, ''ca-cert.pem''])) (\<lambda>_.
     io_bind (unlink_if_exists env (path_join [tempDir, ''ca-openssl.cnf''])) (\<lambda>_.
     rmdir_if_exists env tempDir)))"

definition generate_root_ca :: "'w env \<Rightarrow> string \<Rightarrow> ca_body \<Rightarrow> 'w \<Rightarrow> response \<times> 'w" where
  "generate_root_ca env dirname b w =
     respond ''Failed to generate Root CA''
       (let v = ca_defaults b;
            tempDir = ca_tempDir dirname (dateNow env w) in
        io_bind (mkdirSync env tempDir) (\<lambda>_.
        try_catch (ca_try env v tempDir) (\<lambda>error.
          io_bind (swallow (ca_cleanup env tempDir)) (\<lambda>_. io_throw error)))) w"

subsection \<open>\<^verbatim>\<open>POST /api/sign-client-cert\<close>\<close>

definition sign_client_tempDir :: "string \<Rightarrow> nat \<Rightarrow> string" where
  "sign_client_tempDir dirname now = path_join [dirname, ''temp'', ''sign-client-'' @ show_nat now]"

definition sign_client_try :: "'w env \<Rightarrow> sign_body \<Rightarrow> string \<Rightarrow> ('w, response) io" where
  "sign_client_try env b tempDir =
    (let csrPath = path_join [tempDir, ''client.csr''];
         caKeyPath = path_join [tempDir, ''ca-key.pem''];
         caCertPath = path_join [tempDir, ''ca-cert.pem''];
         certPath = path_join [tempDir, ''client-cert.pem''];
         configPath = path_join [tempDir, ''sign.cnf''];
         serialPath = path_join [tempDir, ''ca-cert.srl'']
     in
     io_bind (writeFileSync env csrPath (interp (csr b))) (\<lambda>_.
     io_bind (writeFileSync env caKeyPath (interp (caKey b))) (\<lambda>_.
     io_bind (writeFileSync env caCertPath (interp (caCert b))) (\<lambda>_.
     io_bind (writeFileSync env configPath (config_text (client_signingConfig b))) (\<lambda>_.
     io_bind (execAsync env (''openssl x509 -req -in '' @ csrPath @ '' -CA '' @ caCertPath
                @ '' -CAkey '' @ caKeyPath @ '' -CAcreateserial -CAserial '' @ serialPath
                @ '' -out '' @ certPath @ '' -days ''
                @ js_text (default_to (JNumber 365) (sign_validityDays b))
                @ '' -extfile '' @ configPath @ '' -extensions v3_client'')) (\<lambda>_.
     io_bind (readFileSync env certPath) (\<lambda>signedCert.
     io_bind (execAsync env (''openssl x509 -in '' @ certPath @ '' -text -noout'')) (\<lambda>certText.
     io_bind (unlinkSync env csrPath) (\<lambda>_.
     io_bind (unlinkSync env caKeyPath) (\<lambda>_.
     io_bind (unlinkSync env caCertPath) (\<lambda>_.
     io_bind (unlinkSync env certPath) (\<lambda>_.
     io_bind (unlinkSync env configPath) (\<lambda>_.
     io_bind (unlink_if_exists env serialPath) (\<lambda>_.
     io_bind (rmdirSync env tempDir) (\<lambda>_.
     io_return (Response 200
       [(''success'', ''true''), (''signedCert'', signedCert),
        (''certDetails'', certText)]))))))))))))))))"

definition sign_client_cleanup :: "'w env \<Rightarrow> string \<Rightarrow> ('w, unit) io" where
  "sign_client_cleanup env tempDir =
     io_bind (unlink_if_exists env (path_join [tempDir, ''client.csr''])) (\<lambda>_.
     io_bind (unlink_if_exists env (path_join [tempDir, ''ca-key.pem''])) (\<lambda>_.
     io_bind (unlink_if_exists env (path_join [tempDir, ''ca-cert.pem''])) (\<lambda>_.
     io_bind (unlink_if_exists env (path_join [tempDir, ''client-cert.pem''])) (\<lambda>_.
     io_bind (unlink_if_exists env (path_join [tempDir, ''sign.cnf''])) (\<lambda>_.
     rmdir_if_exists env tempDir)))))"

definition sign_required :: "'a sign_body_scheme \<Rightarrow> bool" where
  "sign_required b = (truthy (csr b) \<and> truthy (caKey b) \<and> truthy (caCert b))"

definition sign_client_cert :: "'w env \<Rightarrow> string \<Rightarrow> sign_body \<Rightarrow> 'w \<Rightarrow> response \<times> 'w" where
  "sign_client_cert env dirname b w =
     respond ''Failed to sign client certificate''
       (if \<not> sign_required b then
          io_return (Response 400
            [(''error'', ''CSR, CA Key, and CA Certificate are required'')])
        else
          (let tempDir = sign_client_tempDir dirname (dateNow env w) in
           io_bind (mkdirSync env tempDir) (\<lambda>_.
           try_catch (sign_client_try env b tempDir) (\<lambda>error.
             io_bind (swallow (sign_client_cleanup env tempDir)) (\<lambda>_. io_throw error))))) w"

subsection \<open>\<^verbatim>\<open>POST /api/sign-broker-cert\<close>\<close>

definition sign_broker_tempDir :: "string \<Rightarrow> nat \<Rightarrow> string" where
  "sign_broker_tempDir dirname now = path_join [dirname, ''temp'', ''sign-broker-'' @ show_nat now]"

definition sign_broker_try :: "'w env \<Rightarrow> sign_broker_body \<Rightarrow> string \<Rightarrow> ('w, response) io" where
  "sign_broker_try env b tempDir =
    (let csrPath = path_join [tempDir, ''broker.csr''];
         caKeyPath = path_join [tempDir, ''ca-key.pem''];
         caCertPath = path_join [tempDir, ''ca-cert.pem''];
         certPath = path_join [tempDir, ''broker-cert.pem''];
         configPath = path_join [tempDir, ''sign.cnf''];
         serialPath = path_join [tempDir, ''ca-cert.srl'']
     in
     io_bind (writeFileSync env csrPath (interp (csr b))) (\<lambda>_.
     io_bind (writeFileSync env caKeyPath (interp (caKey b))) (\<lambda>_.
     io_bind (writeFileSync env caCertPath (interp (caCert b))) (\<lambda>_.
     io_bind (writeFileSync env configPath (config_text (broker_signingConfig b))) (\<lambda>_.
     io_bind (execAsync env (''openssl x509 -req -in '' @ csrPath @ '' -CA '' @ caCertPath
                @ '' -CAkey '' @ caKeyPath @ '' -CAcreateserial -CAserial '' @ serialPath
                @ '' -out '' @ certPath @ '' -days ''
                @ js_text (default_to (JNumber 365) (sign_validityDays b))
                @ '' -extfile '' @ configPath @ '' -extensions v3_broker'')) (\<lambda>_.
     io_bind (readFileSync env certPath) (\<lambda>signedCert.
     io_bind (execAsync env (''openssl x509 -in '' @ certPath @ '' -text -noout'')) (\<lambda>certText.
     io_bind (unlinkSync env csrPath) (\<lambda>_.
     io_bind (unlinkSync env caKeyPath) (\<lambda>_.
     io_bind (unlinkSync env caCertPath) (\<lambda>_.
     io_bind (unlinkSync env certPath) (\<lambda>_.
     io_bind (unlinkSync env configPath) (\<lambda>_.
     io_bind (unlink_if_exists env serialPath) (\<lambda>_.
     io_bind (rmdirSync env tempDir) (\<lambda>_.
     io_return (Response 200
       [(''success'', ''true''), (''signedCert'', signedCert),
        (''certDetails'', certText)]))))))))))))))))"

definition sign_broker_cleanup :: "'w env \<Rightarrow> string \<Rightarrow> ('w, unit) io" where
  "sign_broker_cleanup env tempDir =
     io_bind (unlink_if_exists env (path_join [tempDir, ''broker.csr''])) (\<lambda>_.
     io_bind (unlink_if_exists env (path_join [tempDir, ''ca-key.pem''])) (\<lambda>_.
     io_bind (unlink_if_exists env (path_join [tempDir, ''ca-cert.pem''])) (\<lambda>_.
     io_bind (unlink_if_exists env (path_join [tempDir, ''broker-cert.pem''])) (\<lambda>_.
     io_bind (unlink_if_exists env (path_join [tempDir, ''sign.cnf''])) (\<lambda>_.
     rmdir_if_exists env tempDir)))))"

definition sign_broker_cert ::
  "'w env \<Rightarrow> string \<Rightarrow> sign_broker_body \<Rightarrow> 'w \<Rightarrow> response \<times> 'w" where
  "sign_broker_cert env dirname b w =
     respond ''Failed to sign broker certificate''
       (if \<not> sign_required b then
          io_return (Response 400
            [(''error'', ''CSR, CA Key, and CA Certificate are required'')])
        else
          (let tempDir = sign_broker_tempDir dirname (dateNow env w) in
           io_bind (mkdirSync env tempDir) (\<lambda>_.
           try_catch (sign_broker_try env b tempDir) (\<lambda>error.
             io_bind (swallow (sign_broker_cleanup env tempDir)) (\<lambda>_. io_throw error))))) w"

section \<open>The specification's reading, for comparison\<close>

text \<open>
  The specification renders a SAN list by dropping the entries with an empty or blank
  value and those whose type is neither \<^verbatim>\<open>DNS\<close> nor \<^verbatim>\<open>IP\<close>, and numbers each type
  from 1 on its own: an entry's index is one more than the number of earlier entries of
  its type.
\<close>

fun per_type_lines :: "san list \<Rightarrow> san list \<Rightarrow> string list" where
  "per_type_lines seen [] = []"
| "per_type_lines seen (s # rest) =
     (san_type s @ ''.''
        @ show_nat (length (filter (\<lambda>t. san_type t = san_type s) seen) + 1)
        @ '' = '' @ trim (san_value s))
     # per_type_lines (seen @ [s]) rest"

definition spec_san_lines :: "san list \<Rightarrow> string list" where
  "spec_san_lines sans =
     per_type_lines []
       (filter (\<lambda>s. san_type s = ''DNS'' \<or> san_type s = ''IP'')
         (filter san_kept sans))"

text \<open>
  A response is complete when it is the whole success payload (status 200,
  \<^verbatim>\<open>success: true\<close> and every field of the payload), or one error object: the
  validation error (status 400, \<^verbatim>\<open>error\<close>) or the failure (status 500, \<^verbatim>\<open>error\<close> and
  \<^verbatim>\<open>message\<close>).
\<close>

definition complete_response :: "string list \<Rightarrow> response \<Rightarrow> bool" where
  "complete_response payload r =
     ((status r = 200 \<and> take 1 (fields r) = [(''success'', ''true'')]
         \<and> map fst (drop 1 (fields r)) = payload)
      \<or> (status r = 400 \<and> map fst (fields r) = [''error''])
      \<or> (status r = 500 \<and> map fst (fields r) = [''error'', ''message'']))"

section \<open>An environment for concrete runs\<close>

text \<open>
  A world that is the log of the calls made, with a fixed clock. The shell fails on the
  commands \<open>shell_fails\<close> selects and \<^verbatim>\<open>unlinkSync\<close> on the paths \<open>unlink_fails\<close> selects;
  everything else succeeds, and every path is reported to exist.
\<close>

definition trace_env :: "nat \<Rightarrow> (string \<Rightarrow> bool) \<Rightarrow> (string \<Rightarrow> bool) \<Rightarrow> (string list) env" where
  "trace_env now shell_fails unlink_fails =
     \<lparr> dateNow = (\<lambda>log. now),
       execAsync = (\<lambda>cmd log.
         (if shell_fails cmd then Inl (Error (''Command failed: '' @ cmd)) else Inr ''stdout'',
          log @ [''exec '' @ cmd])),
       mkdirSync = (\<lambda>p log. (Inr (), log @ [''mkdir '' @ p])),
       writeFileSync = (\<lambda>p content log. (Inr (), log @ [''write '' @ p])),
       readFileSync = (\<lambda>p log. (Inr (''contents of '' @ p), log @ [''read '' @ p])),
       unlinkSync = (\<lambda>p log.
         (if unlink_fails p then Inl (Error (''EPERM: '' @ p)) else Inr (),
          log @ [''unlink '' @ p])),
       rmdirSync = (\<lambda>p log. (Inr (), log @ [''rmdir '' @ p])),
       existsSync = (\<lambda>p log. True) \<rparr>"

text \<open>Bodies used in the concrete runs.\<close>

definition device_001 :: csr_body where
  "device_001 =
     \<lparr> curve = None, commonName = Some ''device-001'', organization = Some ''Acme'',
       organizationalUnit = None, country = Some ''US'', state = Some ''CA'',
       locality = Some ''SF'', email = None, serialNumber = None \<rparr>"

definition device_002 :: csr_body where
  "device_002 =
     \<lparr> curve = None, commonName = Some ''device-002'', organization = Some ''Globex'',
       organizationalUnit = Some ''Field'', country = Some ''DE'', state = Some ''BE'',
       locality = Some ''Berlin'', email = Some ''ops@globex.example'',
       serialNumber = Some ''SN-42'' \<rparr>"

definition empty_ca_body :: ca_body where
  "empty_ca_body =
     \<lparr> curve = None, commonName = None, organization = None, organizationalUnit = None,
       country = None, state = None, locality = None, email = None, validityDays = None \<rparr>"

definition blank_san_broker :: broker_body where
  "blank_san_broker =
     \<lparr> curve = None, commonName = Some ''broker.local'', organization = None,
       organizationalUnit = None, country = None, state = None, locality = None,
       email = None,
       subjectAltNames = [\<lparr> san_type = ''DNS'', san_value = ''   '' \<rparr>] \<rparr>"

definition nameless_broker :: broker_body where
  "nameless_broker =
     \<lparr> curve = None, commonName = None, organization = Some ''Acme'',
       organizationalUnit = None, country = None, state = None, locality = None,
       email = None,
       subjectAltNames = [\<lparr> san_type = ''DNS'', san_value = ''broker.local'' \<rparr>] \<rparr>"

definition sign_request :: sign_body where
  "sign_request =
     \<lparr> csr = Some ''CSR PEM'', caKey = Some ''CA KEY PEM'', caCert = Some ''CA CERT PEM'',
       sign_validityDays = None \<rparr>"

definition blank_san_sign_request :: sign_broker_body where
  "blank_san_sign_request =
     \<lparr> csr = Some ''CSR PEM'', caKey = Some ''CA KEY PEM'', caCert = Some ''CA CERT PEM'',
       sign_validityDays = None,
       sign_subjectAltNames = [\<lparr> san_type = ''DNS'', san_value = ''   '' \<rparr>] \<rparr>"

definition dns_and_ip :: "san list" where
  "dns_and_ip =
     [\<lparr> san_type = ''DNS'', san_value = ''broker.local'' \<rparr>,
      \<lparr> san_type = ''IP'', san_value = ''10.0.0.5'' \<rparr>]"

definition uri_san :: "san list" where
  "uri_san = [\<lparr> san_type = ''URI'', san_value = ''mqtt://broker.local'' \<rparr>]"


text \<open>Further bodies: values with a line feed, a string for the validity period.\<close>

definition line_feed_sign_request :: sign_broker_body where
  "line_feed_sign_request =
     \<lparr> csr = Some ''CSR PEM'', caKey = Some ''CA KEY PEM'', caCert = Some ''CA CERT PEM'',
       sign_validityDays = None,
       sign_subjectAltNames =
         [\<lparr> san_type = ''DNS'',
            san_value = ''broker.local'' @ newline @ ''[ v3_broker ]'' @ newline
              @ ''basicConstraints = critical,CA:TRUE'' \<rparr>] \<rparr>"

definition line_feed_client :: csr_body where
  "line_feed_client =
     \<lparr> curve = None, commonName = Some ''device-001'', organization = Some ''Acme'',
       organizationalUnit = None, country = Some ''US'', state = Some ''CA'',
       locality = Some ''SF'', email = Some (''a@b.example'' @ newline @ ''CN = other''),
       serialNumber = None \<rparr>"

definition hash_days_sign_request :: sign_body where
  "hash_days_sign_request =
     \<lparr> csr = Some ''CSR PEM'', caKey = Some ''CA KEY PEM'', caCert = Some ''CA CERT PEM'',
       sign_validityDays = Some (JString ''365 #'') \<rparr>"

definition empty_cn_ca_body :: ca_body where
  "empty_cn_ca_body =
     \<lparr> curve = None, commonName = Some [], organization = None, organizationalUnit = None,
       country = None, state = None, locality = None, email = None, validityDays = None \<rparr>"

definition uri_broker :: broker_body where
  "uri_broker =
     \<lparr> curve = None, commonName = Some ''broker.local'', organization = None,
       organizationalUnit = None, country = None, state = None, locality = None,
       email = None, subjectAltNames = uri_san \<rparr>"

definition uri_sign_request :: sign_broker_body where
  "uri_sign_request =
     \<lparr> csr = Some ''CSR PEM'', caKey = Some ''CA KEY PEM'', caCert = Some ''CA CERT PEM'',
       sign_validityDays = None, sign_subjectAltNames = uri_san \<rparr>"

definition dns_ip_broker :: broker_body where
  "dns_ip_broker =
     \<lparr> curve = None, commonName = Some ''broker.local'', organization = Some ''Acme'',
       organizationalUnit = None, country = None, state = None, locality = None,
       email = None, subjectAltNames = dns_and_ip \<rparr>"

definition dns_ip_sign_request :: sign_broker_body where
  "dns_ip_sign_request =
     \<lparr> csr = Some ''CSR PEM'', caKey = Some ''CA KEY PEM'', caCert = Some ''CA CERT PEM'',
       sign_validityDays = None, sign_subjectAltNames = dns_and_ip \<rparr>"

section \<open>An environment that records what is written and executed\<close>

text \<open>
  A world that is the list of the calls made, with their arguments, the text of a written
  file included. The clock is fixed, every call succeeds and every path is reported to
  exist.
\<close>

datatype call =
    Mkdir string
  | Exec string
  | WriteFile string string
  | ReadFile string
  | Unlink string
  | Rmdir string

definition record_env :: "nat \<Rightarrow> (call list) env" where
  "record_env now =
     \<lparr> dateNow = (\<lambda>calls. now),
       execAsync = (\<lambda>cmd calls. (Inr ''stdout'', calls @ [Exec cmd])),
       mkdirSync = (\<lambda>p calls. (Inr (), calls @ [Mkdir p])),
       writeFileSync = (\<lambda>p content calls. (Inr (), calls @ [WriteFile p content])),
       readFileSync = (\<lambda>p calls. (Inr (''contents of '' @ p), calls @ [ReadFile p])),
       unlinkSync = (\<lambda>p calls. (Inr (), calls @ [Unlink p])),
       rmdirSync = (\<lambda>p calls. (Inr (), calls @ [Rmdir p])),
       existsSync = (\<lambda>p calls. True) \<rparr>"

section \<open>An environment with a file system\<close>

text \<open>
  A world that is the set of the files and of the directories that exist. The calls of
  \<^verbatim>\<open>fs\<close> behave as Node's do on it: writing needs the directory, reading and unlinking
  need the file, \<^verbatim>\<open>rmdirSync\<close> needs the directory to be empty, \<^verbatim>\<open>existsSync\<close> looks the
  path up. The shell is a parameter: it answers a command with its result and the files
  the command leaves.
\<close>

record disk =
  files :: "string list"
  dirs :: "string list"

definition inside :: "string \<Rightarrow> string \<Rightarrow> bool" where
  "inside dir p = (take (length dir + 1) p = dir @ ''/'')"

definition disk_env :: "nat \<Rightarrow> (string \<Rightarrow> (js_error + string) \<times> string list) \<Rightarrow> disk env" where
  "disk_env now shell =
     \<lparr> dateNow = (\<lambda>d. now),
       execAsync = (\<lambda>cmd d.
         (fst (shell cmd), d\<lparr>files := remdups (snd (shell cmd) @ files d)\<rparr>)),
       mkdirSync = (\<lambda>p d. (Inr (), d\<lparr>dirs := remdups (p # dirs d)\<rparr>)),
       writeFileSync = (\<lambda>p content d.
         if filter (\<lambda>dir. inside dir p) (dirs d) = []
         then (Inl (Error (''ENOENT: no such file or directory, open '' @ p)), d)
         else (Inr (), d\<lparr>files := remdups (p # files d)\<rparr>)),
       readFileSync = (\<lambda>p d.
         if p \<in> set (files d) then (Inr (''contents of '' @ p), d)
         else (Inl (Error (''ENOENT: no such file or directory, open '' @ p)), d)),
       unlinkSync = (\<lambda>p d.
         if p \<in> set (files d) then (Inr (), d\<lparr>files := removeAll p (files d)\<rparr>)
         else (Inl (Error (''ENOENT: no such file or directory, unlink '' @ p)), d)),
       rmdirSync = (\<lambda>p d.
         if p \<in> set (dirs d) then
           (if filter (inside p) (files d) = []
            then (Inr (), d\<lparr>dirs := removeAll p (dirs d)\<rparr>)
            else (Inl (Error (''ENOTEMPTY: directory not empty, rmdir '' @ p)), d))
         else (Inl (Error (''ENOENT: no such file or directory, rmdir '' @ p)), d)),
       existsSync = (\<lambda>p d. p \<in> set (files d) \<or> p \<in> set (dirs d)) \<rparr>"

text \<open>
  A stand-in for \<^verbatim>\<open>openssl\<close>: a command that \<open>fails\<close> selects is rejected and leaves
  nothing; any other command succeeds and leaves the files its \<^verbatim>\<open>-out\<close> and
  \<^verbatim>\<open>-CAserial\<close> arguments name.
\<close>

fun words :: "string \<Rightarrow> string list" where
  "words [] = [[]]"
| "words (c # cs) =
     (if c = CHR '' '' then [] # words cs
      else (case words cs of [] \<Rightarrow> [[c]] | w # ws \<Rightarrow> (c # w) # ws))"

fun arg_after :: "string \<Rightarrow> string list \<Rightarrow> string list" where
  "arg_after flag (w # v # ws) = (if w = flag then [v] else []) @ arg_after flag (v # ws)"
| "arg_after flag ws = []"

definition openssl_stub :: "(string \<Rightarrow> bool) \<Rightarrow> string \<Rightarrow> (js_error + string) \<times> string list" where
  "openssl_stub fails cmd =
     (if fails cmd then (Inl (Error (''Command failed: '' @ cmd)), [])
      else (Inr ''stdout'', arg_after ''-out'' (words cmd) @ arg_after ''-CAserial'' (words cmd)))"

definition empty_disk :: disk where
  "empty_disk = \<lparr> files = [], dirs = [] \<rparr>"

section \<open>Rendering of SAN entries\<close>

lemma length_san_lines: "length (san_lines sans) = length (filter san_kept sans)"
  by (simp add: san_lines_def)

lemma kept_dns_and_ip: "filter san_kept dns_and_ip = dns_and_ip"
  by (simp add: dns_and_ip_def san_kept_def trim_def js_whitespace_def)

lemma san_lines_dns_and_ip:
  "san_lines dns_and_ip = [''DNS.1 = broker.local'', ''IP.2 = 10.0.0.5'']"
  by (simp add: dns_and_ip_def san_lines_def render_san_def san_kept_def trim_def
      js_whitespace_def enumerate_eq_zip show_nat.simps digit_char_def)

lemma kept_uri_san: "filter san_kept uri_san = uri_san"
  by (simp add: uri_san_def san_kept_def trim_def js_whitespace_def)

lemma san_lines_uri: "san_lines uri_san = [''URI.1 = mqtt://broker.local'']"
  by (simp add: uri_san_def san_lines_def render_san_def san_kept_def trim_def
      js_whitespace_def enumerate_eq_zip show_nat.simps digit_char_def)

section \<open>The lines of a written text\<close>

lemma text_lines_not_Nil: "text_lines s \<noteq> []"
  by (induction s) (auto split: list.splits)

lemma text_lines_plain: "CHR 0x0A \<notin> set s \<Longrightarrow> text_lines s = [s]"
  by (induction s) auto

lemma text_lines_append_feed:
  "text_lines (a @ CHR 0x0A # b) = text_lines a @ text_lines b"
proof (induction a)
  case Nil
  show ?case by simp
next
  case (Cons c a)
  obtain l ls where ls: "text_lines a = l # ls"
    using text_lines_not_Nil [of a] by (cases "text_lines a") auto
  with Cons show ?case by simp
qed

lemma text_lines_join:
  "xs \<noteq> [] \<Longrightarrow> text_lines (join newline xs) = concat (map text_lines xs)"
proof (induction newline xs rule: join.induct)
  case (3 x y ys)
  then show ?case by (simp add: newline_def text_lines_append_feed)
qed simp_all

lemma concat_text_lines_plain:
  "\<forall>l \<in> set ls. CHR 0x0A \<notin> set l \<Longrightarrow> concat (map text_lines ls) = ls"
  by (induction ls) (simp_all add: text_lines_plain)

lemma line_in_text:
  assumes "l \<in> set ls" and "CHR 0x0A \<notin> set l"
  shows "l \<in> set (text_lines (join newline ls))"
proof -
  from assms(1) have "ls \<noteq> []" by auto
  then have "text_lines (join newline ls) = concat (map text_lines ls)"
    by (rule text_lines_join)
  moreover from assms have "l \<in> set (concat (map text_lines ls))"
    by (auto simp: text_lines_plain intro!: bexI [of _ l])
  ultimately show ?thesis by simp
qed

lemma digit_char_plain: "d < 10 \<Longrightarrow> digit_char d \<noteq> CHR 0x0A"
proof -
  assume "d < 10"
  then have "digit_char d \<in> set ''0123456789''"
    unfolding digit_char_def by (intro nth_mem) simp
  then show ?thesis by auto
qed

lemma show_nat_plain: "CHR 0x0A \<notin> set (show_nat n)"
proof (induction n rule: show_nat.induct)
  case (1 n)
  show ?case
  proof (cases "n < 10")
    case True
    with digit_char_plain [of n] show ?thesis by (auto simp: show_nat.simps [of n])
  next
    case False
    with 1 have "CHR 0x0A \<notin> set (show_nat (n div 10))" by simp
    moreover have "digit_char (n mod 10) \<noteq> CHR 0x0A" by (rule digit_char_plain) simp
    ultimately show ?thesis using False by (auto simp: show_nat.simps [of n])
  qed
qed

lemma set_trim: "set (trim s) \<subseteq> set s"
proof -
  have "set (dropWhile js_whitespace (rev (dropWhile js_whitespace s)))
          \<subseteq> set (rev (dropWhile js_whitespace s))"
    by (rule set_dropWhileD [THEN subsetI]) 
  also have "\<dots> \<subseteq> set s" by (auto dest: set_dropWhileD)
  finally show ?thesis by (simp add: trim_def)
qed

lemma render_san_plain:
  assumes "CHR 0x0A \<notin> set (san_type s)" and "CHR 0x0A \<notin> set (san_value s)"
  shows "CHR 0x0A \<notin> set (render_san (i, s))"
  using assms set_trim [of "san_value s"] show_nat_plain [of "i + 1"]
  by (auto simp: render_san_def)

lemma san_lines_not_Nil: "filter san_kept sans \<noteq> [] \<Longrightarrow> san_lines sans \<noteq> []"
  using length_san_lines [of sans] by auto

lemma san_lines_plain:
  assumes "\<forall>s \<in> set sans. CHR 0x0A \<notin> set (san_type s) \<and> CHR 0x0A \<notin> set (san_value s)"
  shows "\<forall>l \<in> set (san_lines sans). CHR 0x0A \<notin> set l"
proof
  fix l assume "l \<in> set (san_lines sans)"
  then obtain i where i: "i < length (san_lines sans)" and l: "san_lines sans ! i = l"
    by (metis in_set_conv_nth)
  let ?s = "filter san_kept sans ! i"
  from i have i': "i < length (filter san_kept sans)" by (simp add: length_san_lines)
  then have "?s \<in> set (filter san_kept sans)" by (rule nth_mem)
  then have "?s \<in> set sans" by simp
  with assms have "CHR 0x0A \<notin> set (san_type ?s)" and "CHR 0x0A \<notin> set (san_value ?s)"
    by auto
  then have "CHR 0x0A \<notin> set (render_san (i, ?s))" by (rule render_san_plain)
  moreover from i' have "san_lines sans ! i = render_san (i, ?s)"
    by (simp add: san_lines_def nth_enumerate_eq)
  ultimately show "CHR 0x0A \<notin> set l" using l by simp
qed

lemma render_san_not_Nil: "render_san p \<noteq> []"
  by (cases p) (simp add: render_san_def)

lemma join_not_Nil: "xs \<noteq> [] \<Longrightarrow> hd xs \<noteq> [] \<Longrightarrow> join sep xs \<noteq> []"
  by (induction sep xs rule: join.induct) simp_all

lemma sanEntries_not_Nil:
  assumes "filter san_kept sans \<noteq> []"
  shows "sanEntries sans \<noteq> []"
proof -
  from assms have ne: "san_lines sans \<noteq> []" by (rule san_lines_not_Nil)
  then have "hd (san_lines sans) \<in> set (san_lines sans)" by simp
  then have "hd (san_lines sans) \<noteq> []"
    by (auto simp: san_lines_def render_san_not_Nil [THEN not_sym])
  with ne show ?thesis unfolding sanEntries_def by (rule join_not_Nil)
qed

lemma sanSection_kept:
  "filter san_kept sans \<noteq> [] \<Longrightarrow> sanSection sans = [[], ''[ alt_names ]''] @ san_lines sans"
  using sanEntries_not_Nil [of sans] by (auto simp: sanSection_def)

lemma sanSection_none: "filter san_kept sans = [] \<Longrightarrow> sanSection sans = [[]]"
  by (simp add: sanSection_def sanEntries_def san_lines_def)

lemma sanEntries_lines:
  assumes "\<forall>s \<in> set sans. CHR 0x0A \<notin> set (san_type s) \<and> CHR 0x0A \<notin> set (san_value s)"
    and "filter san_kept sans \<noteq> []"
  shows "text_lines (sanEntries sans) = san_lines sans"
proof -
  from assms(2) have "san_lines sans \<noteq> []" by (rule san_lines_not_Nil)
  then have "text_lines (sanEntries sans) = concat (map text_lines (san_lines sans))"
    unfolding sanEntries_def by (rule text_lines_join)
  also have "\<dots> = san_lines sans"
    by (rule concat_text_lines_plain) (rule san_lines_plain [OF assms(1)])
  finally show ?thesis .
qed

section \<open>Failures and responses\<close>

lemma swallow_Inr: "swallow c w = (Inr (), snd (c w))"
  by (simp add: swallow_def split: prod.splits sum.splits)

lemma io_bind_InrE:
  assumes "io_bind m f w = (Inr r, w')"
  obtains a w1 where "m w = (Inr a, w1)" and "f a w1 = (Inr r, w')"
  using assms by (auto simp: io_bind_def split: prod.splits sum.splits)

text \<open>
  The shape the five handlers share: make the scratch directory, run the block, and on
  an error run the cleanup inside its own \<^verbatim>\<open>try\<close> and throw the error again.
\<close>

lemma guarded_failure:
  assumes "mk w = (Inr (), w1)" and "m w1 = (Inl e, w2)"
  shows "respond label
           (io_bind mk (\<lambda>_. try_catch m (\<lambda>error.
              io_bind (swallow c) (\<lambda>_. io_throw error)))) w
         = (Response 500 [(''error'', label), (''message'', message e)], snd (c w2))"
  using assms
  by (simp add: respond_def io_bind_def try_catch_def swallow_Inr io_throw_def)

lemma guarded_cases:
  assumes "respond label
           (io_bind mk (\<lambda>_. try_catch m (\<lambda>error.
              io_bind (swallow c) (\<lambda>_. io_throw error)))) w = (r, w')"
  shows "(\<exists>e. r = Response 500 [(''error'', label), (''message'', message e)])
         \<or> (\<exists>w1. m w1 = (Inr r, w'))"
  using assms
  by (auto simp: respond_def io_bind_def try_catch_def swallow_Inr io_throw_def
      split: prod.splits sum.splits)

lemma complete_500:
  "complete_response p (Response 500 [(''error'', label), (''message'', msg)])"
  by (simp add: complete_response_def)

lemma complete_400: "complete_response p (Response 400 [(''error'', msg)])"
  by (simp add: complete_response_def)

lemma guarded_complete:
  assumes "\<And>w1 r w'. m w1 = (Inr r, w') \<Longrightarrow> complete_response p r"
  shows "complete_response p (fst (respond label
           (io_bind mk (\<lambda>_. try_catch m (\<lambda>error.
              io_bind (swallow c) (\<lambda>_. io_throw error)))) w))"
proof -
  obtain r w' where rw: "respond label
           (io_bind mk (\<lambda>_. try_catch m (\<lambda>error.
              io_bind (swallow c) (\<lambda>_. io_throw error)))) w = (r, w')"
    by (cases "respond label
           (io_bind mk (\<lambda>_. try_catch m (\<lambda>error.
              io_bind (swallow c) (\<lambda>_. io_throw error)))) w")
  from guarded_cases [OF rw] assms show ?thesis
    by (auto simp: rw complete_500)
qed

lemma csr_try_payload:
  assumes "csr_try env b t w = (Inr r, w')"
  shows "complete_response [''privateKey'', ''publicKey'', ''csr'', ''csrDetails''] r"
  using assms unfolding csr_try_def Let_def
  by (elim io_bind_InrE) (auto simp: io_return_def complete_response_def)

lemma broker_try_payload:
  assumes "broker_try env b t w = (Inr r, w')"
  shows "complete_response [''privateKey'', ''publicKey'', ''csr'', ''csrDetails'', ''type''] r"
  using assms unfolding broker_try_def Let_def
  by (elim io_bind_InrE) (auto simp: io_return_def complete_response_def)

lemma ca_try_payload:
  assumes "ca_try env v t w = (Inr r, w')"
  shows "complete_response [''caKey'', ''caCert'', ''certDetails''] r"
  using assms unfolding ca_try_def Let_def
  by (elim io_bind_InrE) (auto simp: io_return_def complete_response_def)

lemma ca_try_status:
  assumes "ca_try env v t w = (Inr r, w')"
  shows "status r = 200"
  using assms unfolding ca_try_def Let_def
  by (elim io_bind_InrE) (auto simp: io_return_def)

lemma sign_client_try_payload:
  assumes "sign_client_try env b t w = (Inr r, w')"
  shows "complete_response [''signedCert'', ''certDetails''] r"
  using assms unfolding sign_client_try_def Let_def
  by (elim io_bind_InrE) (auto simp: io_return_def complete_response_def)

lemma sign_broker_try_payload:
  assumes "sign_broker_try env b t w = (Inr r, w')"
  shows "complete_response [''signedCert'', ''certDetails''] r"
  using assms unfolding sign_broker_try_def Let_def
  by (elim io_bind_InrE) (auto simp: io_return_def complete_response_def)

lemma generate_csr_complete:
  "complete_response [''privateKey'', ''publicKey'', ''csr'', ''csrDetails'']
     (fst (generate_csr env dirname b w))"
proof (cases "csr_required b")
  case True
  then show ?thesis
    by (simp add: generate_csr_def Let_def guarded_complete csr_try_payload)
next
  case False
  then show ?thesis
    by (simp add: generate_csr_def respond_def io_return_def complete_400)
qed

lemma generate_broker_csr_complete:
  "complete_response [''privateKey'', ''publicKey'', ''csr'', ''csrDetails'', ''type'']
     (fst (generate_broker_csr env dirname b w))"
proof (cases "truthy (commonName b)")
  case True
  then show ?thesis
    by (simp add: generate_broker_csr_def Let_def guarded_complete broker_try_payload)
next
  case False
  then show ?thesis
    by (simp add: generate_broker_csr_def respond_def io_return_def complete_400)
qed

lemma generate_root_ca_complete:
  "complete_response [''caKey'', ''caCert'', ''certDetails'']
     (fst (generate_root_ca env dirname b w))"
  by (simp add: generate_root_ca_def Let_def guarded_complete ca_try_payload)

lemma sign_client_cert_complete:
  "complete_response [''signedCert'', ''certDetails'']
     (fst (sign_client_cert env dirname b w))"
proof (cases "sign_required b")
  case True
  then show ?thesis
    by (simp add: sign_client_cert_def Let_def guarded_complete sign_client_try_payload)
next
  case False
  then show ?thesis
    by (simp add: sign_client_cert_def respond_def io_return_def complete_400)
qed

lemma sign_broker_cert_complete:
  "complete_response [''signedCert'', ''certDetails'']
     (fst (sign_broker_cert env dirname b w))"
proof (cases "sign_required b")
  case True
  then show ?thesis
    by (simp add: sign_broker_cert_def Let_def guarded_complete sign_broker_try_payload)
next
  case False
  then show ?thesis
    by (simp add: sign_broker_cert_def respond_def io_return_def complete_400)
qed

lemma generate_root_ca_status: "status (fst (generate_root_ca env dirname b w)) \<noteq> 400"
proof -
  obtain r w' where rw: "generate_root_ca env dirname b w = (r, w')"
    by (cases "generate_root_ca env dirname b w")
  then have "respond ''Failed to generate Root CA''
      (io_bind (mkdirSync env (ca_tempDir dirname (dateNow env w)))
        (\<lambda>_. try_catch (ca_try env (ca_defaults b) (ca_tempDir dirname (dateNow env w)))
          (\<lambda>error. io_bind (swallow (ca_cleanup env (ca_tempDir dirname (dateNow env w))))
            (\<lambda>_. io_throw error)))) w = (r, w')"
    by (simp add: generate_root_ca_def Let_def)
  from guarded_cases [OF this] show ?thesis
    by (auto simp: rw dest: ca_try_status)
qed


lemma broker_try_status:
  assumes "broker_try env b t w = (Inr r, w')"
  shows "status r = 200"
  using assms unfolding broker_try_def Let_def
  by (elim io_bind_InrE) (auto simp: io_return_def)

lemma sign_broker_try_status:
  assumes "sign_broker_try env b t w = (Inr r, w')"
  shows "status r = 200"
  using assms unfolding sign_broker_try_def Let_def
  by (elim io_bind_InrE) (auto simp: io_return_def)

lemma generate_broker_csr_400:
  "(status (fst (generate_broker_csr env dirname b w)) = 400) = (\<not> truthy (commonName b))"
proof (cases "truthy (commonName b)")
  case False
  then show ?thesis by (simp add: generate_broker_csr_def respond_def io_return_def)
next
  case True
  obtain r w' where rw: "generate_broker_csr env dirname b w = (r, w')"
    by (cases "generate_broker_csr env dirname b w")
  with True have "respond ''Failed to generate broker CSR''
      (io_bind (mkdirSync env (broker_tempDir dirname (dateNow env w)))
        (\<lambda>_. try_catch (broker_try env b (broker_tempDir dirname (dateNow env w)))
          (\<lambda>error. io_bind (swallow (broker_cleanup env (broker_tempDir dirname (dateNow env w))))
            (\<lambda>_. io_throw error)))) w = (r, w')"
    by (simp add: generate_broker_csr_def Let_def)
  from guarded_cases [OF this] True show ?thesis
    by (auto simp: rw dest: broker_try_status)
qed

lemma sign_broker_cert_400:
  "(status (fst (sign_broker_cert env dirname b w)) = 400) = (\<not> sign_required b)"
proof (cases "sign_required b")
  case False
  then show ?thesis by (simp add: sign_broker_cert_def respond_def io_return_def)
next
  case True
  obtain r w' where rw: "sign_broker_cert env dirname b w = (r, w')"
    by (cases "sign_broker_cert env dirname b w")
  with True have "respond ''Failed to sign broker certificate''
      (io_bind (mkdirSync env (sign_broker_tempDir dirname (dateNow env w)))
        (\<lambda>_. try_catch (sign_broker_try env b (sign_broker_tempDir dirname (dateNow env w)))
          (\<lambda>error. io_bind (swallow (sign_broker_cleanup env (sign_broker_tempDir dirname (dateNow env w))))
            (\<lambda>_. io_throw error)))) w = (r, w')"
    by (simp add: sign_broker_cert_def Let_def)
  from guarded_cases [OF this] True show ?thesis
    by (auto simp: rw dest: sign_broker_try_status)
qed

section \<open>What the handlers write and execute\<close>

lemma generate_broker_csr_calls:
  assumes "truthy (commonName b)"
  shows "snd (generate_broker_csr (record_env now) dirname b []) =
    [Mkdir (broker_tempDir dirname now),
     Exec (''openssl ecparam -name '' @ default_to ''prime256v1'' (curve b)
       @ '' -genkey -noout -out ''
       @ path_join [broker_tempDir dirname now, ''broker-private-key.pem'']),
     WriteFile (path_join [broker_tempDir dirname now, ''broker-openssl.cnf''])
       (config_text (broker_opensslConfig b)),
     Exec (''openssl req -new -key ''
       @ path_join [broker_tempDir dirname now, ''broker-private-key.pem''] @ '' -out ''
       @ path_join [broker_tempDir dirname now, ''broker-csr.pem''] @ '' -config ''
       @ path_join [broker_tempDir dirname now, ''broker-openssl.cnf'']),
     ReadFile (path_join [broker_tempDir dirname now, ''broker-private-key.pem'']),
     ReadFile (path_join [broker_tempDir dirname now, ''broker-csr.pem'']),
     Exec (''openssl ec -in ''
       @ path_join [broker_tempDir dirname now, ''broker-private-key.pem'']
       @ '' -pubout 2>/dev/null''),
     Exec (''openssl req -text -noout -in ''
       @ path_join [broker_tempDir dirname now, ''broker-csr.pem'']),
     Unlink (path_join [broker_tempDir dirname now, ''broker-private-key.pem'']),
     Unlink (path_join [broker_tempDir dirname now, ''broker-csr.pem'']),
     Unlink (path_join [broker_tempDir dirname now, ''broker-openssl.cnf'']),
     Rmdir (broker_tempDir dirname now)]"
  using assms
  by (simp add: generate_broker_csr_def respond_def try_catch_def broker_try_def Let_def
      io_bind_def io_return_def record_env_def)

lemma sign_broker_cert_calls:
  assumes "sign_required b"
  shows "snd (sign_broker_cert (record_env now) dirname b []) =
    [Mkdir (sign_broker_tempDir dirname now),
     WriteFile (path_join [sign_broker_tempDir dirname now, ''broker.csr'']) (interp (csr b)),
     WriteFile (path_join [sign_broker_tempDir dirname now, ''ca-key.pem'']) (interp (caKey b)),
     WriteFile (path_join [sign_broker_tempDir dirname now, ''ca-cert.pem''])
       (interp (caCert b)),
     WriteFile (path_join [sign_broker_tempDir dirname now, ''sign.cnf''])
       (config_text (broker_signingConfig b)),
     Exec (''openssl x509 -req -in ''
       @ path_join [sign_broker_tempDir dirname now, ''broker.csr''] @ '' -CA ''
       @ path_join [sign_broker_tempDir dirname now, ''ca-cert.pem''] @ '' -CAkey ''
       @ path_join [sign_broker_tempDir dirname now, ''ca-key.pem'']
       @ '' -CAcreateserial -CAserial ''
       @ path_join [sign_broker_tempDir dirname now, ''ca-cert.srl''] @ '' -out ''
       @ path_join [sign_broker_tempDir dirname now, ''broker-cert.pem''] @ '' -days ''
       @ js_text (default_to (JNumber 365) (sign_validityDays b)) @ '' -extfile ''
       @ path_join [sign_broker_tempDir dirname now, ''sign.cnf'']
       @ '' -extensions v3_broker''),
     ReadFile (path_join [sign_broker_tempDir dirname now, ''broker-cert.pem'']),
     Exec (''openssl x509 -in ''
       @ path_join [sign_broker_tempDir dirname now, ''broker-cert.pem'']
       @ '' -text -noout''),
     Unlink (path_join [sign_broker_tempDir dirname now, ''broker.csr'']),
     Unlink (path_join [sign_broker_tempDir dirname now, ''ca-key.pem'']),
     Unlink (path_join [sign_broker_tempDir dirname now, ''ca-cert.pem'']),
     Unlink (path_join [sign_broker_tempDir dirname now, ''broker-cert.pem'']),
     Unlink (path_join [sign_broker_tempDir dirname now, ''sign.cnf'']),
     Unlink (path_join [sign_broker_tempDir dirname now, ''ca-cert.srl'']),
     Rmdir (sign_broker_tempDir dirname now)]"
  using assms
  by (simp add: sign_broker_cert_def respond_def try_catch_def sign_broker_try_def Let_def
      io_bind_def io_return_def record_env_def unlink_if_exists_def)

lemma generate_root_ca_calls:
  "snd (generate_root_ca (record_env now) dirname b []) =
    [Mkdir (ca_tempDir dirname now),
     Exec (''openssl ecparam -name '' @ default_to ''prime256v1'' (curve b)
       @ '' -genkey -noout -out '' @ path_join [ca_tempDir dirname now, ''ca-key.pem'']),
     WriteFile (path_join [ca_tempDir dirname now, ''ca-openssl.cnf''])
       (config_text (ca_opensslConfig (ca_defaults b))),
     Exec (''openssl req -new -x509 -days ''
       @ js_text (default_to (JNumber 3650) (validityDays b)) @ '' -key ''
       @ path_join [ca_tempDir dirname now, ''ca-key.pem''] @ '' -out ''
       @ path_join [ca_tempDir dirname now, ''ca-cert.pem''] @ '' -config ''
       @ path_join [ca_tempDir dirname now, ''ca-openssl.cnf'']),
     ReadFile (path_join [ca_tempDir dirname now, ''ca-key.pem'']),
     ReadFile (path_join [ca_tempDir dirname now, ''ca-cert.pem'']),
     Exec (''openssl x509 -in '' @ path_join [ca_tempDir dirname now, ''ca-cert.pem'']
       @ '' -text -noout''),
     Unlink (path_join [ca_tempDir dirname now, ''ca-key.pem'']),
     Unlink (path_join [ca_tempDir dirname now, ''ca-cert.pem'']),
     Unlink (path_join [ca_tempDir dirname now, ''ca-openssl.cnf'']),
     Rmdir (ca_tempDir dirname now)]"
  by (simp add: generate_root_ca_def respond_def try_catch_def ca_try_def Let_def
      io_bind_def io_return_def record_env_def ca_defaults_def default_to_def interp_def
      split: option.splits)

text \<open>
  Whatever the file system and the shell do: when the block of a handler throws after
  the scratch directory was made, the handler runs the cleanup of its \<^verbatim>\<open>catch\<close> block
  inside a \<^verbatim>\<open>try\<close> of its own and answers status 500 with its label and the message of
  the error thrown first; what the cleanup throws does not reach the response. Every
  response of every handler is complete.
\<close>

lemma failure_answers_first_error:
  "(\<forall>env dirname b w w1 w2 e.
      csr_required b
      \<and> mkdirSync env (csr_tempDir dirname (dateNow env w)) w = (Inr (), w1)
      \<and> csr_try env b (csr_tempDir dirname (dateNow env w)) w1 = (Inl e, w2)
      \<longrightarrow> generate_csr env dirname b w =
            (Response 500 [(''error'', ''Failed to generate CSR''), (''message'', message e)],
             snd (csr_cleanup env (csr_tempDir dirname (dateNow env w)) w2)))
   \<and> (\<forall>env dirname b w w1 w2 e.
      sign_required b
      \<and> mkdirSync env (sign_client_tempDir dirname (dateNow env w)) w = (Inr (), w1)
      \<and> sign_client_try env b (sign_client_tempDir dirname (dateNow env w)) w1 = (Inl e, w2)
      \<longrightarrow> sign_client_cert env dirname b w =
            (Response 500
               [(''error'', ''Failed to sign client certificate''), (''message'', message e)],
             snd (sign_client_cleanup env (sign_client_tempDir dirname (dateNow env w)) w2)))
   \<and> (\<forall>env dirname b w w1 w2 e.
      truthy (commonName b)
      \<and> mkdirSync env (broker_tempDir dirname (dateNow env w)) w = (Inr (), w1)
      \<and> broker_try env b (broker_tempDir dirname (dateNow env w)) w1 = (Inl e, w2)
      \<longrightarrow> generate_broker_csr env dirname b w =
            (Response 500
               [(''error'', ''Failed to generate broker CSR''), (''message'', message e)],
             snd (broker_cleanup env (broker_tempDir dirname (dateNow env w)) w2)))
   \<and> (\<forall>env dirname b w w1 w2 e.
      mkdirSync env (ca_tempDir dirname (dateNow env w)) w = (Inr (), w1)
      \<and> ca_try env (ca_defaults b) (ca_tempDir dirname (dateNow env w)) w1 = (Inl e, w2)
      \<longrightarrow> generate_root_ca env dirname b w =
            (Response 500
               [(''error'', ''Failed to generate Root CA''), (''message'', message e)],
             snd (ca_cleanup env (ca_tempDir dirname (dateNow env w)) w2)))
   \<and> (\<forall>env dirname b w w1 w2 e.
      sign_required b
      \<and> mkdirSync env (sign_broker_tempDir dirname (dateNow env w)) w = (Inr (), w1)
      \<and> sign_broker_try env b (sign_broker_tempDir dirname (dateNow env w)) w1 = (Inl e, w2)
      \<longrightarrow> sign_broker_cert env dirname b w =
            (Response 500
               [(''error'', ''Failed to sign broker certificate''), (''message'', message e)],
             snd (sign_broker_cleanup env (sign_broker_tempDir dirname (dateNow env w)) w2)))
   \<and> (\<forall>env dirname b w.
        complete_response [''privateKey'', ''publicKey'', ''csr'', ''csrDetails'']
          (fst (generate_csr env dirname b w)))
   \<and> (\<forall>env dirname b w.
        complete_response [''privateKey'', ''publicKey'', ''csr'', ''csrDetails'', ''type'']
          (fst (generate_broker_csr env dirname b w)))
   \<and> (\<forall>env dirname b w.
        complete_response [''caKey'', ''caCert'', ''certDetails'']
          (fst (generate_root_ca env dirname b w)))
   \<and> (\<forall>env dirname b w.
        complete_response [''signedCert'', ''certDetails'']
          (fst (sign_client_cert env dirname b w)))
   \<and> (\<forall>env dirname b w.
        complete_response [''signedCert'', ''certDetails'']
          (fst (sign_broker_cert env dirname b w)))"
proof (intro conjI allI impI)
  fix env :: "'a env" and dirname b w w1 w2 e
  assume "csr_required b
      \<and> mkdirSync env (csr_tempDir dirname (dateNow env w)) w = (Inr (), w1)
      \<and> csr_try env b (csr_tempDir dirname (dateNow env w)) w1 = (Inl e, w2)"
  then show "generate_csr env dirname b w =
            (Response 500 [(''error'', ''Failed to generate CSR''), (''message'', message e)],
             snd (csr_cleanup env (csr_tempDir dirname (dateNow env w)) w2))"
    by (simp add: generate_csr_def Let_def guarded_failure)
next
  fix env :: "'b env" and dirname b w w1 w2 e
  assume "sign_required b
      \<and> mkdirSync env (sign_client_tempDir dirname (dateNow env w)) w = (Inr (), w1)
      \<and> sign_client_try env b (sign_client_tempDir dirname (dateNow env w)) w1 = (Inl e, w2)"
  then show "sign_client_cert env dirname b w =
            (Response 500
               [(''error'', ''Failed to sign client certificate''), (''message'', message e)],
             snd (sign_client_cleanup env (sign_client_tempDir dirname (dateNow env w)) w2))"
    by (simp add: sign_client_cert_def Let_def guarded_failure)
next
  fix env :: "'c env" and dirname b w w1 w2 e
  assume "truthy (commonName b)
      \<and> mkdirSync env (broker_tempDir dirname (dateNow env w)) w = (Inr (), w1)
      \<and> broker_try env b (broker_tempDir dirname (dateNow env w)) w1 = (Inl e, w2)"
  then show "generate_broker_csr env dirname b w =
            (Response 500
               [(''error'', ''Failed to generate broker CSR''), (''message'', message e)],
             snd (broker_cleanup env (broker_tempDir dirname (dateNow env w)) w2))"
    by (simp add: generate_broker_csr_def Let_def guarded_failure)
next
  fix env :: "'d env" and dirname b w w1 w2 e
  assume "mkdirSync env (ca_tempDir dirname (dateNow env w)) w = (Inr (), w1)
      \<and> ca_try env (ca_defaults b) (ca_tempDir dirname (dateNow env w)) w1 = (Inl e, w2)"
  then show "generate_root_ca env dirname b w =
            (Response 500
               [(''error'', ''Failed to generate Root CA''), (''message'', message e)],
             snd (ca_cleanup env (ca_tempDir dirname (dateNow env w)) w2))"
    by (simp add: generate_root_ca_def Let_def guarded_failure)
next
  fix env :: "'e env" and dirname b w w1 w2 e
  assume "sign_required b
      \<and> mkdirSync env (sign_broker_tempDir dirname (dateNow env w)) w = (Inr (), w1)
      \<and> sign_broker_try env b (sign_broker_tempDir dirname (dateNow env w)) w1 = (Inl e, w2)"
  then show "sign_broker_cert env dirname b w =
            (Response 500
               [(''error'', ''Failed to sign broker certificate''), (''message'', message e)],
             snd (sign_broker_cleanup env (sign_broker_tempDir dirname (dateNow env w)) w2))"
    by (simp add: sign_broker_cert_def Let_def guarded_failure)
qed (simp_all only: generate_csr_complete generate_broker_csr_complete
      generate_root_ca_complete sign_client_cert_complete sign_broker_cert_complete)

lemma broker_signingConfig_lines:
  assumes "\<forall>s \<in> set (sign_subjectAltNames b).
             CHR 0x0A \<notin> set (san_type s) \<and> CHR 0x0A \<notin> set (san_value s)"
    and "filter san_kept (sign_subjectAltNames b) \<noteq> []"
  shows "text_lines (config_text (broker_signingConfig b)) =
     ['''', ''[ v3_broker ]'', ''basicConstraints = CA:FALSE'', ''subjectKeyIdentifier = hash'',
      ''authorityKeyIdentifier = keyid,issuer'',
      ''keyUsage = critical, digitalSignature, keyEncipherment, keyAgreement'',
      ''extendedKeyUsage = serverAuth'', ''subjectAltName = @alt_names'', '''',
      ''[ alt_names ]'']
     @ san_lines (sign_subjectAltNames b) @ ['''']"
proof -
  from assms(2) have ne: "sign_subjectAltNames b \<noteq> []" by auto
  have plain: "concat (map text_lines (san_lines (sign_subjectAltNames b)))
      = san_lines (sign_subjectAltNames b)"
    by (rule concat_text_lines_plain) (rule san_lines_plain [OF assms(1)])
  show ?thesis
    unfolding config_text_def broker_signingConfig_def
    by (subst text_lines_join) (simp_all add: sanSection_kept [OF assms(2)] sanClause_def ne plain)
qed

lemma broker_opensslConfig_lines:
  assumes "\<forall>s \<in> set (subjectAltNames b).
             CHR 0x0A \<notin> set (san_type s) \<and> CHR 0x0A \<notin> set (san_value s)"
    and "filter san_kept (subjectAltNames b) \<noteq> []"
  shows "\<exists>pre. text_lines (config_text (broker_opensslConfig b)) =
     pre @ [''[ v3_req ]'',
            ''keyUsage = critical, digitalSignature, keyEncipherment, keyAgreement'',
            ''extendedKeyUsage = serverAuth'', ''subjectAltName = @alt_names'', '''',
            ''[ alt_names ]'']
     @ san_lines (subjectAltNames b) @ ['''']"
proof -
  from assms(2) have ne: "subjectAltNames b \<noteq> []" by auto
  have plain: "concat (map text_lines (san_lines (subjectAltNames b)))
      = san_lines (subjectAltNames b)"
    by (rule concat_text_lines_plain) (rule san_lines_plain [OF assms(1)])
  show ?thesis
    unfolding config_text_def broker_opensslConfig_def
    by (subst text_lines_join) (simp_all add: sanSection_kept [OF assms(2)] sanClause_def ne plain)
qed

lemma san_line_written:
  assumes "s \<in> set sans" and "san_kept s"
    and "CHR 0x0A \<notin> set (san_type s)" and "CHR 0x0A \<notin> set (san_value s)"
    and "set (san_lines sans) \<subseteq> set ls"
  shows "\<exists>k. san_type s @ ''.'' @ show_nat k @ '' = '' @ trim (san_value s)
           \<in> set (text_lines (config_text ls))"
proof -
  from assms(1,2) have "s \<in> set (filter san_kept sans)" by simp
  then obtain i where i: "i < length (filter san_kept sans)"
    and s: "filter san_kept sans ! i = s"
    by (metis in_set_conv_nth)
  let ?l = "san_type s @ ''.'' @ show_nat (i + 1) @ '' = '' @ trim (san_value s)"
  from i s have l: "san_lines sans ! i = ?l"
    by (simp add: san_lines_def render_san_def nth_enumerate_eq)
  from i have "san_lines sans ! i \<in> set (san_lines sans)"
    by (simp add: length_san_lines)
  with l assms(5) have mem: "?l \<in> set ls" by auto
  have "CHR 0x0A \<notin> set ?l"
    using assms(3,4) set_trim [of "san_value s"] show_nat_plain [of "i + 1"] by auto
  with mem have "?l \<in> set (text_lines (config_text ls))"
    unfolding config_text_def by (rule line_in_text)
  then show ?thesis by blast
qed

lemma san_lines_in_broker_opensslConfig:
  "filter san_kept (subjectAltNames b) \<noteq> [] \<Longrightarrow>
   set (san_lines (subjectAltNames b)) \<subseteq> set (broker_opensslConfig b)"
  by (auto simp: broker_opensslConfig_def sanSection_kept)

lemma san_lines_in_broker_signingConfig:
  "filter san_kept (sign_subjectAltNames b) \<noteq> [] \<Longrightarrow>
   set (san_lines (sign_subjectAltNames b)) \<subseteq> set (broker_signingConfig b)"
  by (auto simp: broker_signingConfig_def sanSection_kept)

section \<open>The SAN list as written\<close>

text \<open>
  C2, as the specification states it: each type has its own index sequence, so the first
  IP entry of a list is \<^verbatim>\<open>IP.1\<close> wherever it stands. The handler numbers the entries
  by their position in the filtered array: after one DNS entry the first IP entry is
  \<^verbatim>\<open>IP.2\<close>.
\<close>

theorem san_index_per_type_counterexample:
  "san_lines dns_and_ip = [''DNS.1 = broker.local'', ''IP.2 = 10.0.0.5'']
   \<and> spec_san_lines dns_and_ip = [''DNS.1 = broker.local'', ''IP.1 = 10.0.0.5'']
   \<and> san_lines dns_and_ip \<noteq> spec_san_lines dns_and_ip"
  by (simp add: san_lines_dns_and_ip spec_san_lines_def kept_dns_and_ip)
     (simp add: dns_and_ip_def show_nat.simps digit_char_def trim_def js_whitespace_def)

text \<open>
  C2, amended: entries whose value is empty or whitespace-only are dropped, and the N
  entries that remain are rendered in their order, the one at position \<open>i\<close> (from 0) as
  the text \<^verbatim>\<open><type>.<i+1> = <trimmed value>\<close>: one index sequence from 1, shared by all
  types. When no type and no value holds a line feed and N is at least 1, the
  configuration file that sign-broker-cert writes is the fixed lines, the header
  \<^verbatim>\<open>[ alt_names ]\<close> and exactly these N lines, and the file that generate-broker-csr
  writes ends with the \<^verbatim>\<open>[ v3_req ]\<close> lines, the header and exactly these N lines.
  When N is 0 the block is the empty line only: no \<^verbatim>\<open>[ alt_names ]\<close> header.
\<close>

theorem san_index_is_position:
  "(\<forall>sans. length (san_lines sans) = length (filter san_kept sans))
   \<and> (\<forall>sans. \<forall>i < length (filter san_kept sans).
        san_lines sans ! i =
          san_type (filter san_kept sans ! i) @ ''.'' @ show_nat (i + 1) @ '' = ''
            @ trim (san_value (filter san_kept sans ! i)))
   \<and> (\<forall>sans. filter san_kept sans = [] \<longrightarrow> sanSection sans = [[]])
   \<and> (\<forall>b now dirname. sign_required b \<longrightarrow>
        WriteFile (path_join [sign_broker_tempDir dirname now, ''sign.cnf''])
          (config_text (broker_signingConfig b))
          \<in> set (snd (sign_broker_cert (record_env now) dirname b [])))
   \<and> (\<forall>b. (\<forall>s \<in> set (sign_subjectAltNames b).
              CHR 0x0A \<notin> set (san_type s) \<and> CHR 0x0A \<notin> set (san_value s))
          \<and> filter san_kept (sign_subjectAltNames b) \<noteq> [] \<longrightarrow>
        text_lines (config_text (broker_signingConfig b)) =
          ['''', ''[ v3_broker ]'', ''basicConstraints = CA:FALSE'',
           ''subjectKeyIdentifier = hash'', ''authorityKeyIdentifier = keyid,issuer'',
           ''keyUsage = critical, digitalSignature, keyEncipherment, keyAgreement'',
           ''extendedKeyUsage = serverAuth'', ''subjectAltName = @alt_names'', '''',
           ''[ alt_names ]'']
          @ san_lines (sign_subjectAltNames b) @ [''''])
   \<and> (\<forall>b now dirname. truthy (commonName b) \<longrightarrow>
        WriteFile (path_join [broker_tempDir dirname now, ''broker-openssl.cnf''])
          (config_text (broker_opensslConfig b))
          \<in> set (snd (generate_broker_csr (record_env now) dirname b [])))
   \<and> (\<forall>b. (\<forall>s \<in> set (subjectAltNames b).
              CHR 0x0A \<notin> set (san_type s) \<and> CHR 0x0A \<notin> set (san_value s))
          \<and> filter san_kept (subjectAltNames b) \<noteq> [] \<longrightarrow>
        (\<exists>pre. text_lines (config_text (broker_opensslConfig b)) =
          pre @ [''[ v3_req ]'',
                 ''keyUsage = critical, digitalSignature, keyEncipherment, keyAgreement'',
                 ''extendedKeyUsage = serverAuth'', ''subjectAltName = @alt_names'', '''',
                 ''[ alt_names ]'']
          @ san_lines (subjectAltNames b) @ ['''']))"
proof (intro conjI allI impI)
  fix sans show "length (san_lines sans) = length (filter san_kept sans)"
    by (rule length_san_lines)
next
  fix sans i assume "i < length (filter san_kept sans)"
  then show "san_lines sans ! i =
          san_type (filter san_kept sans ! i) @ ''.'' @ show_nat (i + 1) @ '' = ''
            @ trim (san_value (filter san_kept sans ! i))"
    by (simp add: san_lines_def render_san_def nth_enumerate_eq)
next
  fix sans assume "filter san_kept sans = []"
  then show "sanSection sans = [[]]" by (rule sanSection_none)
next
  fix b :: sign_broker_body and now dirname
  assume "sign_required b"
  then show "WriteFile (path_join [sign_broker_tempDir dirname now, ''sign.cnf''])
          (config_text (broker_signingConfig b))
          \<in> set (snd (sign_broker_cert (record_env now) dirname b []))"
    by (simp add: sign_broker_cert_calls)
next
  fix b :: sign_broker_body
  assume "(\<forall>s \<in> set (sign_subjectAltNames b).
              CHR 0x0A \<notin> set (san_type s) \<and> CHR 0x0A \<notin> set (san_value s))
          \<and> filter san_kept (sign_subjectAltNames b) \<noteq> []"
  then show "text_lines (config_text (broker_signingConfig b)) =
          ['''', ''[ v3_broker ]'', ''basicConstraints = CA:FALSE'',
           ''subjectKeyIdentifier = hash'', ''authorityKeyIdentifier = keyid,issuer'',
           ''keyUsage = critical, digitalSignature, keyEncipherment, keyAgreement'',
           ''extendedKeyUsage = serverAuth'', ''subjectAltName = @alt_names'', '''',
           ''[ alt_names ]'']
          @ san_lines (sign_subjectAltNames b) @ ['''']"
    using broker_signingConfig_lines [of b] by blast
next
  fix b :: broker_body and now dirname
  assume "truthy (commonName b)"
  then show "WriteFile (path_join [broker_tempDir dirname now, ''broker-openssl.cnf''])
          (config_text (broker_opensslConfig b))
          \<in> set (snd (generate_broker_csr (record_env now) dirname b []))"
    by (simp add: generate_broker_csr_calls)
next
  fix b :: broker_body
  assume "(\<forall>s \<in> set (subjectAltNames b).
              CHR 0x0A \<notin> set (san_type s) \<and> CHR 0x0A \<notin> set (san_value s))
          \<and> filter san_kept (subjectAltNames b) \<noteq> []"
  then show "\<exists>pre. text_lines (config_text (broker_opensslConfig b)) =
          pre @ [''[ v3_req ]'',
                 ''keyUsage = critical, digitalSignature, keyEncipherment, keyAgreement'',
                 ''extendedKeyUsage = serverAuth'', ''subjectAltName = @alt_names'', '''',
                 ''[ alt_names ]'']
          @ san_lines (subjectAltNames b) @ ['''']"
    using broker_opensslConfig_lines [of b] by blast
qed

lemma plain_dns_and_ip:
  "\<forall>s \<in> set dns_and_ip. CHR 0x0A \<notin> set (san_type s) \<and> CHR 0x0A \<notin> set (san_value s)"
  by (simp add: dns_and_ip_def)

theorem san_index_is_position_witness:
  "(1::nat) < length (filter san_kept dns_and_ip)
   \<and> san_lines dns_and_ip ! 1 = ''IP.2 = 10.0.0.5''
   \<and> filter san_kept (subjectAltNames blank_san_broker) = []
   \<and> sanSection (subjectAltNames blank_san_broker) = [[]]
   \<and> sign_required dns_ip_sign_request
   \<and> WriteFile ''/app/temp/sign-broker-1700000000000/sign.cnf''
        (config_text (broker_signingConfig dns_ip_sign_request))
        \<in> set (snd (sign_broker_cert (record_env 1700000000000) ''/app''
                   dns_ip_sign_request []))
   \<and> text_lines (config_text (broker_signingConfig dns_ip_sign_request)) =
        ['''', ''[ v3_broker ]'', ''basicConstraints = CA:FALSE'',
         ''subjectKeyIdentifier = hash'', ''authorityKeyIdentifier = keyid,issuer'',
         ''keyUsage = critical, digitalSignature, keyEncipherment, keyAgreement'',
         ''extendedKeyUsage = serverAuth'', ''subjectAltName = @alt_names'', '''',
         ''[ alt_names ]'', ''DNS.1 = broker.local'', ''IP.2 = 10.0.0.5'', '''']
   \<and> truthy (commonName dns_ip_broker)
   \<and> WriteFile ''/app/temp/broker-1700000000000/broker-openssl.cnf''
        (config_text (broker_opensslConfig dns_ip_broker))
        \<in> set (snd (generate_broker_csr (record_env 1700000000000) ''/app''
                   dns_ip_broker []))
   \<and> (\<exists>pre. text_lines (config_text (broker_opensslConfig dns_ip_broker)) =
        pre @ [''[ v3_req ]'',
               ''keyUsage = critical, digitalSignature, keyEncipherment, keyAgreement'',
               ''extendedKeyUsage = serverAuth'', ''subjectAltName = @alt_names'', '''',
               ''[ alt_names ]'', ''DNS.1 = broker.local'', ''IP.2 = 10.0.0.5'', ''''])"
proof -
  note main = san_index_is_position
  have len: "(1::nat) < length (filter san_kept dns_and_ip)"
    by (simp add: kept_dns_and_ip) (simp add: dns_and_ip_def)
  have none: "filter san_kept (subjectAltNames blank_san_broker) = []"
    by (simp add: blank_san_broker_def san_kept_def trim_def js_whitespace_def)
  have req: "sign_required dns_ip_sign_request"
    by (simp add: sign_required_def truthy_def dns_ip_sign_request_def)
  have cn: "truthy (commonName dns_ip_broker)"
    by (simp add: truthy_def dns_ip_broker_def)
  have kept: "filter san_kept dns_and_ip \<noteq> []"
    by (simp add: kept_dns_and_ip) (simp add: dns_and_ip_def)
  have ts: "sign_broker_tempDir ''/app'' 1700000000000 = ''/app/temp/sign-broker-1700000000000''"
    by (simp add: sign_broker_tempDir_def path_join_def show_nat.simps digit_char_def)
  have tb: "broker_tempDir ''/app'' 1700000000000 = ''/app/temp/broker-1700000000000''"
    by (simp add: broker_tempDir_def path_join_def show_nat.simps digit_char_def)
  have sb: "sign_subjectAltNames dns_ip_sign_request = dns_and_ip"
    by (simp add: dns_ip_sign_request_def)
  have bb: "subjectAltNames dns_ip_broker = dns_and_ip"
    by (simp add: dns_ip_broker_def)
  from main [THEN conjunct2, THEN conjunct1, rule_format, OF len]
  have a: "san_lines dns_and_ip ! 1 = ''IP.2 = 10.0.0.5''"
    by (simp add: kept_dns_and_ip)
       (simp add: dns_and_ip_def show_nat.simps digit_char_def trim_def js_whitespace_def)
  from main [THEN conjunct2, THEN conjunct2, THEN conjunct1, rule_format, OF none]
  have b: "sanSection (subjectAltNames blank_san_broker) = [[]]" .
  from main [THEN conjunct2, THEN conjunct2, THEN conjunct2, THEN conjunct1, rule_format,
      OF req, of "''/app''" 1700000000000]
  have c: "WriteFile ''/app/temp/sign-broker-1700000000000/sign.cnf''
        (config_text (broker_signingConfig dns_ip_sign_request))
        \<in> set (snd (sign_broker_cert (record_env 1700000000000) ''/app''
                   dns_ip_sign_request []))"
    by (simp add: ts path_join_def)
  from main [THEN conjunct2, THEN conjunct2, THEN conjunct2, THEN conjunct2, THEN conjunct1,
      rule_format, of dns_ip_sign_request] plain_dns_and_ip kept
  have d: "text_lines (config_text (broker_signingConfig dns_ip_sign_request)) =
        ['''', ''[ v3_broker ]'', ''basicConstraints = CA:FALSE'',
         ''subjectKeyIdentifier = hash'', ''authorityKeyIdentifier = keyid,issuer'',
         ''keyUsage = critical, digitalSignature, keyEncipherment, keyAgreement'',
         ''extendedKeyUsage = serverAuth'', ''subjectAltName = @alt_names'', '''',
         ''[ alt_names ]'', ''DNS.1 = broker.local'', ''IP.2 = 10.0.0.5'', '''']"
    by (simp add: sb san_lines_dns_and_ip)
  from main [THEN conjunct2, THEN conjunct2, THEN conjunct2, THEN conjunct2, THEN conjunct2,
      THEN conjunct1, rule_format, OF cn, of "''/app''" 1700000000000]
  have e: "WriteFile ''/app/temp/broker-1700000000000/broker-openssl.cnf''
        (config_text (broker_opensslConfig dns_ip_broker))
        \<in> set (snd (generate_broker_csr (record_env 1700000000000) ''/app''
                   dns_ip_broker []))"
    by (simp add: tb path_join_def)
  from main [THEN conjunct2, THEN conjunct2, THEN conjunct2, THEN conjunct2, THEN conjunct2,
      THEN conjunct2, rule_format, of dns_ip_broker] plain_dns_and_ip kept
  have f: "\<exists>pre. text_lines (config_text (broker_opensslConfig dns_ip_broker)) =
        pre @ [''[ v3_req ]'',
               ''keyUsage = critical, digitalSignature, keyEncipherment, keyAgreement'',
               ''extendedKeyUsage = serverAuth'', ''subjectAltName = @alt_names'', '''',
               ''[ alt_names ]'', ''DNS.1 = broker.local'', ''IP.2 = 10.0.0.5'', '''']"
    by (simp add: bb san_lines_dns_and_ip)
  from len a none b req c d cn e f show ?thesis by blast
qed

text \<open>
  C4, as the specification states it: an entry whose type is neither \<^verbatim>\<open>DNS\<close> nor
  \<^verbatim>\<open>IP\<close> is dropped. The handler never looks at the type: a \<^verbatim>\<open>URI\<close> entry is rendered.
\<close>

theorem san_type_dropped_counterexample:
  "san_lines uri_san = [''URI.1 = mqtt://broker.local''] \<and> spec_san_lines uri_san = []"
  by (simp add: san_lines_uri spec_san_lines_def kept_uri_san) (simp add: uri_san_def)

text \<open>
  C4, amended: the handlers never look at the type of a SAN entry. An entry whose type
  is not \<^verbatim>\<open>DNS\<close> or \<^verbatim>\<open>IP\<close> is neither dropped nor refused by validation: status 400
  depends on the Common Name alone in generate-broker-csr, and on \<^verbatim>\<open>csr\<close>, \<^verbatim>\<open>caKey\<close>
  and \<^verbatim>\<open>caCert\<close> alone in sign-broker-cert. Entries are left out only for an empty or
  whitespace-only value; any other entry is rendered with its type as given, as
  \<^verbatim>\<open><type>.<k> = <trimmed value>\<close>, and when its type and value hold no line feed this
  is a line of the configuration file the handler writes. What \<^verbatim>\<open>openssl\<close> then makes
  of the type is not part of the statement.
\<close>

theorem san_type_not_checked:
  "(\<forall>env dirname b w.
      (status (fst (generate_broker_csr env dirname b w)) = 400) = (\<not> truthy (commonName b)))
   \<and> (\<forall>env dirname b w.
      (status (fst (sign_broker_cert env dirname b w)) = 400) = (\<not> sign_required b))
   \<and> (\<forall>sans. length (san_lines sans) = length (filter san_kept sans))
   \<and> (\<forall>b now dirname. truthy (commonName b) \<longrightarrow>
        WriteFile (path_join [broker_tempDir dirname now, ''broker-openssl.cnf''])
          (config_text (broker_opensslConfig b))
          \<in> set (snd (generate_broker_csr (record_env now) dirname b [])))
   \<and> (\<forall>b. \<forall>s \<in> set (subjectAltNames b).
        san_kept s \<and> CHR 0x0A \<notin> set (san_type s) \<and> CHR 0x0A \<notin> set (san_value s) \<longrightarrow>
        (\<exists>k. san_type s @ ''.'' @ show_nat k @ '' = '' @ trim (san_value s)
               \<in> set (text_lines (config_text (broker_opensslConfig b)))))
   \<and> (\<forall>b now dirname. sign_required b \<longrightarrow>
        WriteFile (path_join [sign_broker_tempDir dirname now, ''sign.cnf''])
          (config_text (broker_signingConfig b))
          \<in> set (snd (sign_broker_cert (record_env now) dirname b [])))
   \<and> (\<forall>b. \<forall>s \<in> set (sign_subjectAltNames b).
        san_kept s \<and> CHR 0x0A \<notin> set (san_type s) \<and> CHR 0x0A \<notin> set (san_value s) \<longrightarrow>
        (\<exists>k. san_type s @ ''.'' @ show_nat k @ '' = '' @ trim (san_value s)
               \<in> set (text_lines (config_text (broker_signingConfig b)))))
   \<and> (\<forall>sans. \<forall>s \<in> set sans. san_kept s \<longrightarrow>
        (\<exists>k. san_type s @ ''.'' @ show_nat k @ '' = '' @ trim (san_value s)
               \<in> set (san_lines sans)))"
proof (intro conjI allI ballI impI)
  fix env :: "'a env" and dirname and b :: broker_body and w
  show "(status (fst (generate_broker_csr env dirname b w)) = 400) = (\<not> truthy (commonName b))"
    by (rule generate_broker_csr_400)
next
  fix env :: "'b env" and dirname and b :: sign_broker_body and w
  show "(status (fst (sign_broker_cert env dirname b w)) = 400) = (\<not> sign_required b)"
    by (rule sign_broker_cert_400)
next
  fix sans show "length (san_lines sans) = length (filter san_kept sans)"
    by (rule length_san_lines)
next
  fix b :: broker_body and now dirname
  assume "truthy (commonName b)"
  then show "WriteFile (path_join [broker_tempDir dirname now, ''broker-openssl.cnf''])
          (config_text (broker_opensslConfig b))
          \<in> set (snd (generate_broker_csr (record_env now) dirname b []))"
    by (simp add: generate_broker_csr_calls)
next
  fix b :: broker_body and s
  assume s: "s \<in> set (subjectAltNames b)"
    and h: "san_kept s \<and> CHR 0x0A \<notin> set (san_type s) \<and> CHR 0x0A \<notin> set (san_value s)"
  from s h have "filter san_kept (subjectAltNames b) \<noteq> []"
    by (auto simp: filter_empty_conv)
  then have "set (san_lines (subjectAltNames b)) \<subseteq> set (broker_opensslConfig b)"
    by (rule san_lines_in_broker_opensslConfig)
  with s h show "\<exists>k. san_type s @ ''.'' @ show_nat k @ '' = '' @ trim (san_value s)
               \<in> set (text_lines (config_text (broker_opensslConfig b)))"
    by (intro san_line_written [of s "subjectAltNames b"]) simp_all
next
  fix b :: sign_broker_body and now dirname
  assume "sign_required b"
  then show "WriteFile (path_join [sign_broker_tempDir dirname now, ''sign.cnf''])
          (config_text (broker_signingConfig b))
          \<in> set (snd (sign_broker_cert (record_env now) dirname b []))"
    by (simp add: sign_broker_cert_calls)
next
  fix b :: sign_broker_body and s
  assume s: "s \<in> set (sign_subjectAltNames b)"
    and h: "san_kept s \<and> CHR 0x0A \<notin> set (san_type s) \<and> CHR 0x0A \<notin> set (san_value s)"
  from s h have "filter san_kept (sign_subjectAltNames b) \<noteq> []"
    by (auto simp: filter_empty_conv)
  then have "set (san_lines (sign_subjectAltNames b)) \<subseteq> set (broker_signingConfig b)"
    by (rule san_lines_in_broker_signingConfig)
  with s h show "\<exists>k. san_type s @ ''.'' @ show_nat k @ '' = '' @ trim (san_value s)
               \<in> set (text_lines (config_text (broker_signingConfig b)))"
    by (intro san_line_written [of s "sign_subjectAltNames b"]) simp_all
next
  fix sans :: "san list" and s
  assume "s \<in> set sans" and "san_kept s"
  then have "s \<in> set (filter san_kept sans)" by simp
  then obtain i where i: "i < length (filter san_kept sans)"
    and s: "filter san_kept sans ! i = s"
    by (metis in_set_conv_nth)
  from i s have "san_lines sans ! i
      = san_type s @ ''.'' @ show_nat (i + 1) @ '' = '' @ trim (san_value s)"
    by (simp add: san_lines_def render_san_def nth_enumerate_eq)
  moreover from i have "san_lines sans ! i \<in> set (san_lines sans)"
    by (simp add: length_san_lines)
  ultimately show "\<exists>k. san_type s @ ''.'' @ show_nat k @ '' = '' @ trim (san_value s)
               \<in> set (san_lines sans)"
    by metis
qed

theorem san_type_not_checked_witness:
  "truthy (commonName uri_broker)
   \<and> status (fst (generate_broker_csr (record_env 1700000000000) ''/app'' uri_broker []))
       \<noteq> 400
   \<and> WriteFile ''/app/temp/broker-1700000000000/broker-openssl.cnf''
        (config_text (broker_opensslConfig uri_broker))
        \<in> set (snd (generate_broker_csr (record_env 1700000000000) ''/app'' uri_broker []))
   \<and> \<lparr> san_type = ''URI'', san_value = ''mqtt://broker.local'' \<rparr>
        \<in> set (subjectAltNames uri_broker)
   \<and> san_kept \<lparr> san_type = ''URI'', san_value = ''mqtt://broker.local'' \<rparr>
   \<and> (\<exists>k. ''URI.'' @ show_nat k @ '' = mqtt://broker.local''
          \<in> set (text_lines (config_text (broker_opensslConfig uri_broker))))
   \<and> sign_required uri_sign_request
   \<and> status (fst (sign_broker_cert (record_env 1700000000000) ''/app'' uri_sign_request []))
       \<noteq> 400
   \<and> WriteFile ''/app/temp/sign-broker-1700000000000/sign.cnf''
        (config_text (broker_signingConfig uri_sign_request))
        \<in> set (snd (sign_broker_cert (record_env 1700000000000) ''/app''
                   uri_sign_request []))
   \<and> (\<exists>k. ''URI.'' @ show_nat k @ '' = mqtt://broker.local''
          \<in> set (text_lines (config_text (broker_signingConfig uri_sign_request))))
   \<and> \<lparr> san_type = ''URI'', san_value = ''mqtt://broker.local'' \<rparr> \<in> set uri_san
   \<and> (\<exists>k. ''URI.'' @ show_nat k @ '' = mqtt://broker.local'' \<in> set (san_lines uri_san))"
proof -
  note main = san_type_not_checked
  let ?s = "\<lparr> san_type = ''URI'', san_value = ''mqtt://broker.local'' \<rparr>"
  have cn: "truthy (commonName uri_broker)"
    by (simp add: truthy_def uri_broker_def)
  have req: "sign_required uri_sign_request"
    by (simp add: sign_required_def truthy_def uri_sign_request_def)
  have mem: "?s \<in> set (subjectAltNames uri_broker)"
    by (simp add: uri_broker_def uri_san_def)
  have mem': "?s \<in> set (sign_subjectAltNames uri_sign_request)"
    by (simp add: uri_sign_request_def uri_san_def)
  have ok: "san_kept ?s \<and> CHR 0x0A \<notin> set (san_type ?s) \<and> CHR 0x0A \<notin> set (san_value ?s)"
    by (simp add: san_kept_def trim_def js_whitespace_def)
  have tr: "trim ''mqtt://broker.local'' = ''mqtt://broker.local''"
    by (simp add: trim_def js_whitespace_def)
  have ts: "sign_broker_tempDir ''/app'' 1700000000000 = ''/app/temp/sign-broker-1700000000000''"
    by (simp add: sign_broker_tempDir_def path_join_def show_nat.simps digit_char_def)
  have tb: "broker_tempDir ''/app'' 1700000000000 = ''/app/temp/broker-1700000000000''"
    by (simp add: broker_tempDir_def path_join_def show_nat.simps digit_char_def)
  from main [THEN conjunct1, rule_format,
      of "record_env 1700000000000" "''/app''" uri_broker "[]"] cn
  have a: "status (fst (generate_broker_csr (record_env 1700000000000) ''/app'' uri_broker []))
       \<noteq> 400" by simp
  from main [THEN conjunct2, THEN conjunct1, rule_format,
      of "record_env 1700000000000" "''/app''" uri_sign_request "[]"] req
  have b: "status (fst (sign_broker_cert (record_env 1700000000000) ''/app''
       uri_sign_request [])) \<noteq> 400" by simp
  from main [THEN conjunct2, THEN conjunct2, THEN conjunct2, THEN conjunct1, rule_format,
      OF cn, of "''/app''" 1700000000000]
  have c: "WriteFile ''/app/temp/broker-1700000000000/broker-openssl.cnf''
        (config_text (broker_opensslConfig uri_broker))
        \<in> set (snd (generate_broker_csr (record_env 1700000000000) ''/app'' uri_broker []))"
    by (simp add: tb path_join_def)
  from main [THEN conjunct2, THEN conjunct2, THEN conjunct2, THEN conjunct2, THEN conjunct1,
      rule_format, OF mem ok]
  have d: "\<exists>k. ''URI.'' @ show_nat k @ '' = mqtt://broker.local''
          \<in> set (text_lines (config_text (broker_opensslConfig uri_broker)))"
    by (simp add: tr)
  from main [THEN conjunct2, THEN conjunct2, THEN conjunct2, THEN conjunct2, THEN conjunct2,
      THEN conjunct1, rule_format, OF req, of "''/app''" 1700000000000]
  have e: "WriteFile ''/app/temp/sign-broker-1700000000000/sign.cnf''
        (config_text (broker_signingConfig uri_sign_request))
        \<in> set (snd (sign_broker_cert (record_env 1700000000000) ''/app''
                   uri_sign_request []))"
    by (simp add: ts path_join_def)
  from main [THEN conjunct2, THEN conjunct2, THEN conjunct2, THEN conjunct2, THEN conjunct2,
      THEN conjunct2, THEN conjunct1, rule_format, OF mem' ok]
  have f: "\<exists>k. ''URI.'' @ show_nat k @ '' = mqtt://broker.local''
          \<in> set (text_lines (config_text (broker_signingConfig uri_sign_request)))"
    by (simp add: tr)
  from ok have ok': "san_kept ?s" by simp
  have mem'': "?s \<in> set uri_san" by (simp add: uri_san_def)
  from main [THEN conjunct2, THEN conjunct2, THEN conjunct2, THEN conjunct2, THEN conjunct2,
      THEN conjunct2, THEN conjunct2, rule_format, OF mem'' ok']
  have g: "\<exists>k. ''URI.'' @ show_nat k @ '' = mqtt://broker.local'' \<in> set (san_lines uri_san)"
    by (simp add: tr)
  from cn a c mem ok' d req b e f mem'' g show ?thesis by blast
qed

section \<open>Values interpolated as they are\<close>

text \<open>
  C3, at a broker request whose only SAN entry is blank: the clause
  \<^verbatim>\<open>subjectAltName = @alt_names\<close> is written, by the CSR handler and by the signing
  handler, and the section \<^verbatim>\<open>[ alt_names ]\<close> it refers to is not: the clause follows
  the length of the array, the section the filtered entries.
\<close>

theorem blank_san_clause_without_section:
  "san_lines (subjectAltNames blank_san_broker) = []
   \<and> section_entries ''v3_req'' (broker_opensslConfig blank_san_broker) =
       [''keyUsage = critical, digitalSignature, keyEncipherment, keyAgreement'',
        ''extendedKeyUsage = serverAuth'', ''subjectAltName = @alt_names'']
   \<and> ''[ alt_names ]'' \<notin> set (broker_opensslConfig blank_san_broker)
   \<and> section_entries ''v3_broker'' (broker_signingConfig blank_san_sign_request) =
       [''basicConstraints = CA:FALSE'', ''subjectKeyIdentifier = hash'',
        ''authorityKeyIdentifier = keyid,issuer'',
        ''keyUsage = critical, digitalSignature, keyEncipherment, keyAgreement'',
        ''extendedKeyUsage = serverAuth'', ''subjectAltName = @alt_names'']
   \<and> ''[ alt_names ]'' \<notin> set (broker_signingConfig blank_san_sign_request)"
  by (simp add: blank_san_broker_def blank_san_sign_request_def san_lines_def san_kept_def
      trim_def js_whitespace_def section_entries_def broker_opensslConfig_def
      broker_signingConfig_def is_header_def sanClause_def sanSection_def sanEntries_def
      truthy_def interp_def)

text \<open>
  C1, at a sign-broker-cert request whose one SAN value holds two line feeds: the value
  is written as it is, so the file handed to \<^verbatim>\<open>openssl x509 -req\<close> with
  \<^verbatim>\<open>-extfile\<close> and \<^verbatim>\<open>-extensions v3_broker\<close> opens the section \<^verbatim>\<open>[ v3_broker ]\<close> a
  second time, after the alternative names, with
  \<^verbatim>\<open>basicConstraints = critical,CA:TRUE\<close>. The section named to \<^verbatim>\<open>openssl\<close> is then not
  the fixed profile of the role.
\<close>

theorem leaf_section_reopened_by_san_value:
  "sign_required line_feed_sign_request
   \<and> snd (sign_broker_cert (record_env 1700000000000) ''/app'' line_feed_sign_request []) =
     [Mkdir ''/app/temp/sign-broker-1700000000000'',
      WriteFile ''/app/temp/sign-broker-1700000000000/broker.csr'' ''CSR PEM'',
      WriteFile ''/app/temp/sign-broker-1700000000000/ca-key.pem'' ''CA KEY PEM'',
      WriteFile ''/app/temp/sign-broker-1700000000000/ca-cert.pem'' ''CA CERT PEM'',
      WriteFile ''/app/temp/sign-broker-1700000000000/sign.cnf''
        (config_text (broker_signingConfig line_feed_sign_request)),
      Exec ''openssl x509 -req -in /app/temp/sign-broker-1700000000000/broker.csr -CA /app/temp/sign-broker-1700000000000/ca-cert.pem -CAkey /app/temp/sign-broker-1700000000000/ca-key.pem -CAcreateserial -CAserial /app/temp/sign-broker-1700000000000/ca-cert.srl -out /app/temp/sign-broker-1700000000000/broker-cert.pem -days 365 -extfile /app/temp/sign-broker-1700000000000/sign.cnf -extensions v3_broker'',
      ReadFile ''/app/temp/sign-broker-1700000000000/broker-cert.pem'',
      Exec ''openssl x509 -in /app/temp/sign-broker-1700000000000/broker-cert.pem -text -noout'',
      Unlink ''/app/temp/sign-broker-1700000000000/broker.csr'',
      Unlink ''/app/temp/sign-broker-1700000000000/ca-key.pem'',
      Unlink ''/app/temp/sign-broker-1700000000000/ca-cert.pem'',
      Unlink ''/app/temp/sign-broker-1700000000000/broker-cert.pem'',
      Unlink ''/app/temp/sign-broker-1700000000000/sign.cnf'',
      Unlink ''/app/temp/sign-broker-1700000000000/ca-cert.srl'',
      Rmdir ''/app/temp/sign-broker-1700000000000'']
   \<and> text_lines (config_text (broker_signingConfig line_feed_sign_request)) =
     ['''',
      ''[ v3_broker ]'',
      ''basicConstraints = CA:FALSE'',
      ''subjectKeyIdentifier = hash'',
      ''authorityKeyIdentifier = keyid,issuer'',
      ''keyUsage = critical, digitalSignature, keyEncipherment, keyAgreement'',
      ''extendedKeyUsage = serverAuth'',
      ''subjectAltName = @alt_names'',
      '''',
      ''[ alt_names ]'',
      ''DNS.1 = broker.local'',
      ''[ v3_broker ]'',
      ''basicConstraints = critical,CA:TRUE'',
      '''']"
proof (intro conjI)
  show req: "sign_required line_feed_sign_request"
    by (simp add: sign_required_def truthy_def line_feed_sign_request_def)
  show "snd (sign_broker_cert (record_env 1700000000000) ''/app'' line_feed_sign_request []) =
     [Mkdir ''/app/temp/sign-broker-1700000000000'',
      WriteFile ''/app/temp/sign-broker-1700000000000/broker.csr'' ''CSR PEM'',
      WriteFile ''/app/temp/sign-broker-1700000000000/ca-key.pem'' ''CA KEY PEM'',
      WriteFile ''/app/temp/sign-broker-1700000000000/ca-cert.pem'' ''CA CERT PEM'',
      WriteFile ''/app/temp/sign-broker-1700000000000/sign.cnf''
        (config_text (broker_signingConfig line_feed_sign_request)),
      Exec ''openssl x509 -req -in /app/temp/sign-broker-1700000000000/broker.csr -CA /app/temp/sign-broker-1700000000000/ca-cert.pem -CAkey /app/temp/sign-broker-1700000000000/ca-key.pem -CAcreateserial -CAserial /app/temp/sign-broker-1700000000000/ca-cert.srl -out /app/temp/sign-broker-1700000000000/broker-cert.pem -days 365 -extfile /app/temp/sign-broker-1700000000000/sign.cnf -extensions v3_broker'',
      ReadFile ''/app/temp/sign-broker-1700000000000/broker-cert.pem'',
      Exec ''openssl x509 -in /app/temp/sign-broker-1700000000000/broker-cert.pem -text -noout'',
      Unlink ''/app/temp/sign-broker-1700000000000/broker.csr'',
      Unlink ''/app/temp/sign-broker-1700000000000/ca-key.pem'',
      Unlink ''/app/temp/sign-broker-1700000000000/ca-cert.pem'',
      Unlink ''/app/temp/sign-broker-1700000000000/broker-cert.pem'',
      Unlink ''/app/temp/sign-broker-1700000000000/sign.cnf'',
      Unlink ''/app/temp/sign-broker-1700000000000/ca-cert.srl'',
      Rmdir ''/app/temp/sign-broker-1700000000000'']"
    by (simp add: sign_broker_cert_calls [OF req] sign_broker_tempDir_def path_join_def
        show_nat.simps digit_char_def default_to_def interp_def)
       (simp add: line_feed_sign_request_def show_nat.simps digit_char_def)
  show "text_lines (config_text (broker_signingConfig line_feed_sign_request)) =
     ['''',
      ''[ v3_broker ]'',
      ''basicConstraints = CA:FALSE'',
      ''subjectKeyIdentifier = hash'',
      ''authorityKeyIdentifier = keyid,issuer'',
      ''keyUsage = critical, digitalSignature, keyEncipherment, keyAgreement'',
      ''extendedKeyUsage = serverAuth'',
      ''subjectAltName = @alt_names'',
      '''',
      ''[ alt_names ]'',
      ''DNS.1 = broker.local'',
      ''[ v3_broker ]'',
      ''basicConstraints = critical,CA:TRUE'',
      '''']"
    by (simp add: config_text_def broker_signingConfig_def line_feed_sign_request_def
        sanClause_def sanSection_def sanEntries_def san_lines_def san_kept_def render_san_def
        trim_def js_whitespace_def enumerate_eq_zip show_nat.simps digit_char_def newline_def)
qed

text \<open>
  C10, at a sign-client-cert request whose \<^verbatim>\<open>validityDays\<close> is the string
  \<^verbatim>\<open>365 #\<close>: the value is put into the command line as it is, so \<^verbatim>\<open>-extfile\<close> and
  \<^verbatim>\<open>-extensions v3_client\<close>, the only arguments that bring the key identifier lines to
  the certificate, stand behind a word \<^verbatim>\<open>#\<close> of the command.
\<close>

theorem extension_arguments_after_hash:
  "sign_required hash_days_sign_request
   \<and> snd (sign_client_cert (record_env 1700000000000) ''/app'' hash_days_sign_request []) =
     [Mkdir ''/app/temp/sign-client-1700000000000'',
      WriteFile ''/app/temp/sign-client-1700000000000/client.csr'' ''CSR PEM'',
      WriteFile ''/app/temp/sign-client-1700000000000/ca-key.pem'' ''CA KEY PEM'',
      WriteFile ''/app/temp/sign-client-1700000000000/ca-cert.pem'' ''CA CERT PEM'',
      WriteFile ''/app/temp/sign-client-1700000000000/sign.cnf''
        (config_text (client_signingConfig hash_days_sign_request)),
      Exec ''openssl x509 -req -in /app/temp/sign-client-1700000000000/client.csr -CA /app/temp/sign-client-1700000000000/ca-cert.pem -CAkey /app/temp/sign-client-1700000000000/ca-key.pem -CAcreateserial -CAserial /app/temp/sign-client-1700000000000/ca-cert.srl -out /app/temp/sign-client-1700000000000/client-cert.pem -days 365 # -extfile /app/temp/sign-client-1700000000000/sign.cnf -extensions v3_client'',
      ReadFile ''/app/temp/sign-client-1700000000000/client-cert.pem'',
      Exec ''openssl x509 -in /app/temp/sign-client-1700000000000/client-cert.pem -text -noout'',
      Unlink ''/app/temp/sign-client-1700000000000/client.csr'',
      Unlink ''/app/temp/sign-client-1700000000000/ca-key.pem'',
      Unlink ''/app/temp/sign-client-1700000000000/ca-cert.pem'',
      Unlink ''/app/temp/sign-client-1700000000000/client-cert.pem'',
      Unlink ''/app/temp/sign-client-1700000000000/sign.cnf'',
      Unlink ''/app/temp/sign-client-1700000000000/ca-cert.srl'',
      Rmdir ''/app/temp/sign-client-1700000000000'']
   \<and> words ''-days 365 # -extfile /app/temp/sign-client-1700000000000/sign.cnf -extensions v3_client''
     = [''-days'', ''365'', ''#'', ''-extfile'',
        ''/app/temp/sign-client-1700000000000/sign.cnf'', ''-extensions'', ''v3_client'']"
proof (intro conjI)
  show "sign_required hash_days_sign_request"
    by (simp add: sign_required_def truthy_def hash_days_sign_request_def)
  show "snd (sign_client_cert (record_env 1700000000000) ''/app'' hash_days_sign_request []) =
     [Mkdir ''/app/temp/sign-client-1700000000000'',
      WriteFile ''/app/temp/sign-client-1700000000000/client.csr'' ''CSR PEM'',
      WriteFile ''/app/temp/sign-client-1700000000000/ca-key.pem'' ''CA KEY PEM'',
      WriteFile ''/app/temp/sign-client-1700000000000/ca-cert.pem'' ''CA CERT PEM'',
      WriteFile ''/app/temp/sign-client-1700000000000/sign.cnf''
        (config_text (client_signingConfig hash_days_sign_request)),
      Exec ''openssl x509 -req -in /app/temp/sign-client-1700000000000/client.csr -CA /app/temp/sign-client-1700000000000/ca-cert.pem -CAkey /app/temp/sign-client-1700000000000/ca-key.pem -CAcreateserial -CAserial /app/temp/sign-client-1700000000000/ca-cert.srl -out /app/temp/sign-client-1700000000000/client-cert.pem -days 365 # -extfile /app/temp/sign-client-1700000000000/sign.cnf -extensions v3_client'',
      ReadFile ''/app/temp/sign-client-1700000000000/client-cert.pem'',
      Exec ''openssl x509 -in /app/temp/sign-client-1700000000000/client-cert.pem -text -noout'',
      Unlink ''/app/temp/sign-client-1700000000000/client.csr'',
      Unlink ''/app/temp/sign-client-1700000000000/ca-key.pem'',
      Unlink ''/app/temp/sign-client-1700000000000/ca-cert.pem'',
      Unlink ''/app/temp/sign-client-1700000000000/client-cert.pem'',
      Unlink ''/app/temp/sign-client-1700000000000/sign.cnf'',
      Unlink ''/app/temp/sign-client-1700000000000/ca-cert.srl'',
      Rmdir ''/app/temp/sign-client-1700000000000'']"
    by (simp add: sign_client_cert_def respond_def try_catch_def sign_client_try_def Let_def
        io_bind_def io_return_def record_env_def sign_required_def truthy_def
        sign_client_tempDir_def path_join_def show_nat.simps digit_char_def default_to_def
        interp_def unlink_if_exists_def)
       (simp add: hash_days_sign_request_def)
  show "words ''-days 365 # -extfile /app/temp/sign-client-1700000000000/sign.cnf -extensions v3_client''
     = [''-days'', ''365'', ''#'', ''-extfile'',
        ''/app/temp/sign-client-1700000000000/sign.cnf'', ''-extensions'', ''v3_client'']"
    by simp
qed

section \<open>Subjects\<close>

text \<open>
  C7, at a client request that passes the check of the required fields and whose
  \<^verbatim>\<open>email\<close> holds a line feed: the section \<^verbatim>\<open>[ req_distinguished_name ]\<close> of the file
  the handler writes has, after the \<^verbatim>\<open>emailAddress\<close> line, a line \<^verbatim>\<open>CN = other\<close> that is
  no supplied field.
\<close>

theorem subject_line_added_by_field_value:
  "csr_required line_feed_client
   \<and> snd (generate_csr (record_env 1700000000000) ''/app'' line_feed_client []) =
     [Mkdir ''/app/temp/1700000000000'',
      Exec ''openssl ecparam -name prime256v1 -genkey -noout -out /app/temp/1700000000000/private-key.pem'',
      WriteFile ''/app/temp/1700000000000/openssl.cnf''
        (config_text (csr_opensslConfig line_feed_client)),
      Exec ''openssl req -new -key /app/temp/1700000000000/private-key.pem -out /app/temp/1700000000000/csr.pem -config /app/temp/1700000000000/openssl.cnf'',
      ReadFile ''/app/temp/1700000000000/private-key.pem'',
      ReadFile ''/app/temp/1700000000000/csr.pem'',
      Exec ''openssl ec -in /app/temp/1700000000000/private-key.pem -pubout 2>/dev/null'',
      Exec ''openssl req -text -noout -in /app/temp/1700000000000/csr.pem'',
      Unlink ''/app/temp/1700000000000/private-key.pem'',
      Unlink ''/app/temp/1700000000000/csr.pem'',
      Unlink ''/app/temp/1700000000000/openssl.cnf'',
      Rmdir ''/app/temp/1700000000000'']
   \<and> text_lines (config_text (csr_opensslConfig line_feed_client)) =
     ['''',
      ''[ req ]'',
      ''default_bits       = 2048'',
      ''distinguished_name = req_distinguished_name'',
      ''req_extensions     = v3_req'',
      ''prompt             = no'',
      '''',
      ''[ req_distinguished_name ]'',
      ''C  = US'',
      ''ST = CA'',
      ''L  = SF'',
      ''O  = Acme'',
      '''',
      ''CN = device-001'',
      '''',
      ''emailAddress = a@b.example'',
      ''CN = other'',
      '''',
      ''[ v3_req ]'',
      ''keyUsage = critical, digitalSignature, keyAgreement'',
      ''extendedKeyUsage = clientAuth'',
      '''']"
proof (intro conjI)
  show "csr_required line_feed_client"
    by (simp add: csr_required_def truthy_def line_feed_client_def)
  show "snd (generate_csr (record_env 1700000000000) ''/app'' line_feed_client []) =
     [Mkdir ''/app/temp/1700000000000'',
      Exec ''openssl ecparam -name prime256v1 -genkey -noout -out /app/temp/1700000000000/private-key.pem'',
      WriteFile ''/app/temp/1700000000000/openssl.cnf''
        (config_text (csr_opensslConfig line_feed_client)),
      Exec ''openssl req -new -key /app/temp/1700000000000/private-key.pem -out /app/temp/1700000000000/csr.pem -config /app/temp/1700000000000/openssl.cnf'',
      ReadFile ''/app/temp/1700000000000/private-key.pem'',
      ReadFile ''/app/temp/1700000000000/csr.pem'',
      Exec ''openssl ec -in /app/temp/1700000000000/private-key.pem -pubout 2>/dev/null'',
      Exec ''openssl req -text -noout -in /app/temp/1700000000000/csr.pem'',
      Unlink ''/app/temp/1700000000000/private-key.pem'',
      Unlink ''/app/temp/1700000000000/csr.pem'',
      Unlink ''/app/temp/1700000000000/openssl.cnf'',
      Rmdir ''/app/temp/1700000000000'']"
    by (simp add: generate_csr_def respond_def try_catch_def csr_try_def Let_def io_bind_def
        io_return_def record_env_def csr_required_def truthy_def csr_tempDir_def path_join_def
        show_nat.simps digit_char_def default_to_def)
       (simp add: line_feed_client_def)
  show "text_lines (config_text (csr_opensslConfig line_feed_client)) =
     ['''',
      ''[ req ]'',
      ''default_bits       = 2048'',
      ''distinguished_name = req_distinguished_name'',
      ''req_extensions     = v3_req'',
      ''prompt             = no'',
      '''',
      ''[ req_distinguished_name ]'',
      ''C  = US'',
      ''ST = CA'',
      ''L  = SF'',
      ''O  = Acme'',
      '''',
      ''CN = device-001'',
      '''',
      ''emailAddress = a@b.example'',
      ''CN = other'',
      '''',
      ''[ v3_req ]'',
      ''keyUsage = critical, digitalSignature, keyAgreement'',
      ''extendedKeyUsage = clientAuth'',
      '''']"
    by (simp add: config_text_def csr_opensslConfig_def line_feed_client_def truthy_def
        interp_def newline_def)
qed

text \<open>
  C5, as the specification states it: without a Common Name and an Organization the root
  CA is named \<^verbatim>\<open>Root CA\<close> of \<^verbatim>\<open>Organization\<close>. The defaults of the handler are
  \<^verbatim>\<open>MQTT Root CA\<close> and \<^verbatim>\<open>MQTT Organization\<close>.
\<close>

theorem root_ca_default_names_counterexample:
  "commonName (ca_defaults empty_ca_body) \<noteq> Some ''Root CA''
   \<and> organization (ca_defaults empty_ca_body) \<noteq> Some ''Organization''
   \<and> map entry (section_entries ''req_distinguished_name''
         (ca_opensslConfig (ca_defaults empty_ca_body)))
       = [(''C'', ''US''), (''ST'', ''California''), (''L'', ''San Francisco''),
          (''O'', ''MQTT Organization''), (''CN'', ''MQTT Root CA'')]"
  by (simp add: ca_defaults_def empty_ca_body_def default_to_def section_entries_def
      ca_opensslConfig_def is_header_def truthy_def interp_def entry_def entry_name_def
      entry_value_def)

text \<open>
  C5, amended: in a generate-root-ca request a subject field that is absent takes the
  default Common Name \<^verbatim>\<open>MQTT Root CA\<close>, Organization \<^verbatim>\<open>MQTT Organization\<close>, Country
  \<^verbatim>\<open>US\<close>, State \<^verbatim>\<open>California\<close>, Locality \<^verbatim>\<open>San Francisco\<close>, and an absent validity
  period is 3650 days.
\<close>

theorem root_ca_defaults:
  "(commonName b = None \<longrightarrow> commonName (ca_defaults b) = Some ''MQTT Root CA'')
   \<and> (organization b = None \<longrightarrow> organization (ca_defaults b) = Some ''MQTT Organization'')
   \<and> (country b = None \<longrightarrow> country (ca_defaults b) = Some ''US'')
   \<and> (state b = None \<longrightarrow> state (ca_defaults b) = Some ''California'')
   \<and> (locality b = None \<longrightarrow> locality (ca_defaults b) = Some ''San Francisco'')
   \<and> (validityDays b = None \<longrightarrow> validityDays (ca_defaults b) = Some (JNumber 3650))"
  by (simp add: ca_defaults_def default_to_def)

theorem root_ca_defaults_witness:
  "commonName empty_ca_body = None \<and> organization empty_ca_body = None
   \<and> country empty_ca_body = None \<and> state empty_ca_body = None
   \<and> locality empty_ca_body = None \<and> validityDays empty_ca_body = None
   \<and> commonName (ca_defaults empty_ca_body) = Some ''MQTT Root CA''
   \<and> organization (ca_defaults empty_ca_body) = Some ''MQTT Organization''
   \<and> country (ca_defaults empty_ca_body) = Some ''US''
   \<and> state (ca_defaults empty_ca_body) = Some ''California''
   \<and> locality (ca_defaults empty_ca_body) = Some ''San Francisco''
   \<and> validityDays (ca_defaults empty_ca_body) = Some (JNumber 3650)"
proof -
  have none: "commonName empty_ca_body = None" "organization empty_ca_body = None"
    "country empty_ca_body = None" "state empty_ca_body = None"
    "locality empty_ca_body = None" "validityDays empty_ca_body = None"
    by (simp_all add: empty_ca_body_def)
  from root_ca_defaults [of empty_ca_body] none show ?thesis by simp
qed

section \<open>Validation of the Common Name\<close>

text \<open>
  C6, as the specification states it: generate-root-ca without a Common Name fails with
  a validation error and returns no artifact. The handler has no such check: with a
  working shell and file system the request without any field is answered with the CA
  key and certificate.
\<close>

theorem root_ca_without_cn_counterexample:
  "commonName empty_ca_body = None
   \<and> fst (generate_root_ca (trace_env 1700000000000 (\<lambda>cmd. False) (\<lambda>p. False))
           ''/app'' empty_ca_body [])
     = Response 200
         [(''success'', ''true''),
          (''caKey'', ''contents of /app/temp/ca-1700000000000/ca-key.pem''),
          (''caCert'', ''contents of /app/temp/ca-1700000000000/ca-cert.pem''),
          (''certDetails'', ''stdout'')]"
  by (simp add: generate_root_ca_def respond_def try_catch_def ca_tempDir_def
      show_nat.simps digit_char_def ca_try_def Let_def io_bind_def io_return_def
      trace_env_def path_join_def empty_ca_body_def ca_defaults_def default_to_def
      interp_def)

lemma cn_line_default:
  assumes "commonName b = None"
  shows "''CN = MQTT Root CA''
           \<in> set (text_lines (config_text (ca_opensslConfig (ca_defaults b))))"
  unfolding config_text_def
  by (rule line_in_text)
     (simp_all add: ca_opensslConfig_def ca_defaults_def default_to_def interp_def assms)

lemma cn_line_empty:
  assumes "commonName b = Some []"
  shows "''CN = '' \<in> set (text_lines (config_text (ca_opensslConfig (ca_defaults b))))"
  unfolding config_text_def
  by (rule line_in_text)
     (simp_all add: ca_opensslConfig_def ca_defaults_def default_to_def interp_def assms)

text \<open>
  C6, amended: generate-broker-csr invoked without a Common Name (absent or empty) is
  answered with status 400 and the error
  \<^verbatim>\<open>Common Name (CN) is required for broker certificate\<close>, and nothing is done: the
  world is unchanged. generate-root-ca has no validation: its response never has status
  400, and for every body, in a run where each step succeeds, it makes the directory,
  writes the configuration and runs the \<^verbatim>\<open>openssl\<close> commands. When the Common Name
  is absent the file holds the line
  \<^verbatim>\<open>CN = MQTT Root CA\<close>; when it is the empty string no default applies and the file
  holds the line \<^verbatim>\<open>CN = \<close>.
\<close>

theorem missing_cn_validation:
  "(\<forall>env dirname b w. \<not> truthy (commonName b) \<longrightarrow>
      generate_broker_csr env dirname b w =
        (Response 400 [(''error'', ''Common Name (CN) is required for broker certificate'')],
         w))
   \<and> (\<forall>env dirname b w. status (fst (generate_root_ca env dirname b w)) \<noteq> 400)
   \<and> (\<forall>now dirname b.
        snd (generate_root_ca (record_env now) dirname b []) =
          [Mkdir (ca_tempDir dirname now),
           Exec (''openssl ecparam -name '' @ default_to ''prime256v1'' (curve b)
             @ '' -genkey -noout -out '' @ path_join [ca_tempDir dirname now, ''ca-key.pem'']),
           WriteFile (path_join [ca_tempDir dirname now, ''ca-openssl.cnf''])
             (config_text (ca_opensslConfig (ca_defaults b))),
           Exec (''openssl req -new -x509 -days ''
             @ js_text (default_to (JNumber 3650) (validityDays b)) @ '' -key ''
             @ path_join [ca_tempDir dirname now, ''ca-key.pem''] @ '' -out ''
             @ path_join [ca_tempDir dirname now, ''ca-cert.pem''] @ '' -config ''
             @ path_join [ca_tempDir dirname now, ''ca-openssl.cnf'']),
           ReadFile (path_join [ca_tempDir dirname now, ''ca-key.pem'']),
           ReadFile (path_join [ca_tempDir dirname now, ''ca-cert.pem'']),
           Exec (''openssl x509 -in '' @ path_join [ca_tempDir dirname now, ''ca-cert.pem'']
             @ '' -text -noout''),
           Unlink (path_join [ca_tempDir dirname now, ''ca-key.pem'']),
           Unlink (path_join [ca_tempDir dirname now, ''ca-cert.pem'']),
           Unlink (path_join [ca_tempDir dirname now, ''ca-openssl.cnf'']),
           Rmdir (ca_tempDir dirname now)])
   \<and> (\<forall>b. commonName b = None \<longrightarrow>
        ''CN = MQTT Root CA''
          \<in> set (text_lines (config_text (ca_opensslConfig (ca_defaults b)))))
   \<and> (\<forall>b. commonName b = Some [] \<longrightarrow>
        ''CN = '' \<in> set (text_lines (config_text (ca_opensslConfig (ca_defaults b)))))"
proof (intro conjI allI impI)
  fix env :: "'a env" and dirname and b :: broker_body and w
  assume "\<not> truthy (commonName b)"
  then show "generate_broker_csr env dirname b w =
        (Response 400 [(''error'', ''Common Name (CN) is required for broker certificate'')],
         w)"
    by (simp add: generate_broker_csr_def respond_def io_return_def)
next
  fix env :: "'b env" and dirname b w
  show "status (fst (generate_root_ca env dirname b w)) \<noteq> 400"
    by (rule generate_root_ca_status)
next
  fix b :: ca_body
  assume "commonName b = None"
  then show "''CN = MQTT Root CA''
          \<in> set (text_lines (config_text (ca_opensslConfig (ca_defaults b))))"
    by (rule cn_line_default)
next
  fix b :: ca_body
  assume "commonName b = Some []"
  then show "''CN = '' \<in> set (text_lines (config_text (ca_opensslConfig (ca_defaults b))))"
    by (rule cn_line_empty)
qed (rule generate_root_ca_calls)

theorem missing_cn_validation_witness:
  "\<not> truthy (commonName nameless_broker)
   \<and> generate_broker_csr (record_env 1700000000000) ''/app'' nameless_broker []
     = (Response 400 [(''error'', ''Common Name (CN) is required for broker certificate'')],
        [])
   \<and> commonName empty_ca_body = None
   \<and> ''CN = MQTT Root CA''
       \<in> set (text_lines (config_text (ca_opensslConfig (ca_defaults empty_ca_body))))
   \<and> commonName empty_cn_ca_body = Some []
   \<and> ''CN = ''
       \<in> set (text_lines (config_text (ca_opensslConfig (ca_defaults empty_cn_ca_body))))
   \<and> WriteFile ''/app/temp/ca-1700000000000/ca-openssl.cnf''
        (config_text (ca_opensslConfig (ca_defaults empty_cn_ca_body)))
       \<in> set (snd (generate_root_ca (record_env 1700000000000) ''/app'' empty_cn_ca_body []))
   \<and> status (fst (generate_root_ca (record_env 1700000000000) ''/app'' empty_cn_ca_body []))
       \<noteq> 400"
proof -
  note main = missing_cn_validation
  have a: "\<not> truthy (commonName nameless_broker)"
    by (simp add: truthy_def nameless_broker_def)
  have b: "commonName empty_ca_body = None"
    by (simp add: empty_ca_body_def)
  have c: "commonName empty_cn_ca_body = Some []"
    by (simp add: empty_cn_ca_body_def)
  have t: "ca_tempDir ''/app'' 1700000000000 = ''/app/temp/ca-1700000000000''"
    by (simp add: ca_tempDir_def path_join_def show_nat.simps digit_char_def)
  from main [THEN conjunct2, THEN conjunct2, THEN conjunct1, rule_format,
      of 1700000000000 "''/app''" empty_cn_ca_body]
  have w: "WriteFile ''/app/temp/ca-1700000000000/ca-openssl.cnf''
        (config_text (ca_opensslConfig (ca_defaults empty_cn_ca_body)))
       \<in> set (snd (generate_root_ca (record_env 1700000000000) ''/app'' empty_cn_ca_body []))"
    by (simp add: t path_join_def)
  from main [THEN conjunct1, rule_format, OF a, of "record_env 1700000000000" "''/app''" "[]"]
    main [THEN conjunct2, THEN conjunct1, rule_format,
      of "record_env 1700000000000" "''/app''" empty_cn_ca_body "[]"]
    main [THEN conjunct2, THEN conjunct2, THEN conjunct2, THEN conjunct1, rule_format, OF b]
    main [THEN conjunct2, THEN conjunct2, THEN conjunct2, THEN conjunct2, rule_format, OF c]
    a b c w
  show ?thesis by simp
qed

section \<open>What stays after a failure\<close>

text \<open>
  C8, at a sign-client-cert request for which the signing command succeeds, leaving the
  certificate and the serial file \<^verbatim>\<open>ca-cert.srl\<close>, and the next command fails: the
  \<^verbatim>\<open>catch\<close> block unlinks the five files it names and not the serial file, so
  \<^verbatim>\<open>rmdirSync\<close> throws and the scratch directory stays with the serial file in it. The
  response is the first error. The success path does unlink the serial file, and
  sign-broker-cert behaves as sign-client-cert; after the same kind of failure the other
  three handlers leave nothing.
\<close>

theorem serial_file_left_after_failure:
  "sign_client_cert
     (disk_env 1700000000000 (openssl_stub (\<lambda>cmd. take 16 cmd = ''openssl x509 -in'')))
     ''/app'' sign_request empty_disk
   = (Response 500
        [(''error'', ''Failed to sign client certificate''),
         (''message'', ''Command failed: openssl x509 -in /app/temp/sign-client-1700000000000/client-cert.pem -text -noout'')],
      \<lparr> files = [''/app/temp/sign-client-1700000000000/ca-cert.srl''],
        dirs = [''/app/temp/sign-client-1700000000000''] \<rparr>)
   \<and> sign_client_cert (disk_env 1700000000000 (openssl_stub (\<lambda>cmd. False)))
       ''/app'' sign_request empty_disk
   = (Response 200
        [(''success'', ''true''),
         (''signedCert'', ''contents of /app/temp/sign-client-1700000000000/client-cert.pem''),
         (''certDetails'', ''stdout'')],
      \<lparr> files = [], dirs = [] \<rparr>)
   \<and> generate_csr
       (disk_env 1700000000000 (openssl_stub (\<lambda>cmd. take 11 cmd = ''openssl req'')))
       ''/app'' device_001 empty_disk
   = (Response 500
        [(''error'', ''Failed to generate CSR''),
         (''message'', ''Command failed: openssl req -new -key /app/temp/1700000000000/private-key.pem -out /app/temp/1700000000000/csr.pem -config /app/temp/1700000000000/openssl.cnf'')],
      \<lparr> files = [], dirs = [] \<rparr>)
   \<and> sign_broker_cert
       (disk_env 1700000000000 (openssl_stub (\<lambda>cmd. take 16 cmd = ''openssl x509 -in'')))
       ''/app'' dns_ip_sign_request empty_disk
   = (Response 500
        [(''error'', ''Failed to sign broker certificate''),
         (''message'', ''Command failed: openssl x509 -in /app/temp/sign-broker-1700000000000/broker-cert.pem -text -noout'')],
      \<lparr> files = [''/app/temp/sign-broker-1700000000000/ca-cert.srl''],
        dirs = [''/app/temp/sign-broker-1700000000000''] \<rparr>)
   \<and> generate_broker_csr
       (disk_env 1700000000000 (openssl_stub (\<lambda>cmd. take 11 cmd = ''openssl req'')))
       ''/app'' dns_ip_broker empty_disk
   = (Response 500
        [(''error'', ''Failed to generate broker CSR''),
         (''message'', ''Command failed: openssl req -new -key /app/temp/broker-1700000000000/broker-private-key.pem -out /app/temp/broker-1700000000000/broker-csr.pem -config /app/temp/broker-1700000000000/broker-openssl.cnf'')],
      \<lparr> files = [], dirs = [] \<rparr>)
   \<and> generate_root_ca
       (disk_env 1700000000000 (openssl_stub (\<lambda>cmd. take 16 cmd = ''openssl x509 -in'')))
       ''/app'' empty_ca_body empty_disk
   = (Response 500
        [(''error'', ''Failed to generate Root CA''),
         (''message'', ''Command failed: openssl x509 -in /app/temp/ca-1700000000000/ca-cert.pem -text -noout'')],
      \<lparr> files = [], dirs = [] \<rparr>)"
proof (intro conjI)
  show "sign_client_cert
     (disk_env 1700000000000 (openssl_stub (\<lambda>cmd. take 16 cmd = ''openssl x509 -in'')))
     ''/app'' sign_request empty_disk
   = (Response 500
        [(''error'', ''Failed to sign client certificate''),
         (''message'', ''Command failed: openssl x509 -in /app/temp/sign-client-1700000000000/client-cert.pem -text -noout'')],
      \<lparr> files = [''/app/temp/sign-client-1700000000000/ca-cert.srl''],
        dirs = [''/app/temp/sign-client-1700000000000''] \<rparr>)"
    by (simp add: sign_client_cert_def respond_def try_catch_def swallow_def io_throw_def
        sign_client_try_def sign_client_cleanup_def Let_def io_bind_def io_return_def
        disk_env_def openssl_stub_def empty_disk_def inside_def sign_required_def truthy_def
        sign_client_tempDir_def path_join_def show_nat.simps digit_char_def default_to_def
        interp_def unlink_if_exists_def rmdir_if_exists_def sign_request_def)
  show "sign_client_cert (disk_env 1700000000000 (openssl_stub (\<lambda>cmd. False)))
       ''/app'' sign_request empty_disk
   = (Response 200
        [(''success'', ''true''),
         (''signedCert'', ''contents of /app/temp/sign-client-1700000000000/client-cert.pem''),
         (''certDetails'', ''stdout'')],
      \<lparr> files = [], dirs = [] \<rparr>)"
    by (simp add: sign_client_cert_def respond_def try_catch_def swallow_def io_throw_def
        sign_client_try_def sign_client_cleanup_def Let_def io_bind_def io_return_def
        disk_env_def openssl_stub_def empty_disk_def inside_def sign_required_def truthy_def
        sign_client_tempDir_def path_join_def show_nat.simps digit_char_def default_to_def
        interp_def unlink_if_exists_def rmdir_if_exists_def sign_request_def)
  show "generate_csr
       (disk_env 1700000000000 (openssl_stub (\<lambda>cmd. take 11 cmd = ''openssl req'')))
       ''/app'' device_001 empty_disk
   = (Response 500
        [(''error'', ''Failed to generate CSR''),
         (''message'', ''Command failed: openssl req -new -key /app/temp/1700000000000/private-key.pem -out /app/temp/1700000000000/csr.pem -config /app/temp/1700000000000/openssl.cnf'')],
      \<lparr> files = [], dirs = [] \<rparr>)"
    by (simp add: generate_csr_def respond_def try_catch_def swallow_def io_throw_def
        csr_try_def csr_cleanup_def Let_def io_bind_def io_return_def
        disk_env_def openssl_stub_def empty_disk_def inside_def csr_required_def truthy_def
        csr_tempDir_def path_join_def show_nat.simps digit_char_def default_to_def
        unlink_if_exists_def rmdir_if_exists_def device_001_def)
  show "sign_broker_cert
       (disk_env 1700000000000 (openssl_stub (\<lambda>cmd. take 16 cmd = ''openssl x509 -in'')))
       ''/app'' dns_ip_sign_request empty_disk
   = (Response 500
        [(''error'', ''Failed to sign broker certificate''),
         (''message'', ''Command failed: openssl x509 -in /app/temp/sign-broker-1700000000000/broker-cert.pem -text -noout'')],
      \<lparr> files = [''/app/temp/sign-broker-1700000000000/ca-cert.srl''],
        dirs = [''/app/temp/sign-broker-1700000000000''] \<rparr>)"
    by (simp add: sign_broker_cert_def respond_def try_catch_def swallow_def io_throw_def
        sign_broker_try_def sign_broker_cleanup_def Let_def io_bind_def io_return_def
        disk_env_def openssl_stub_def empty_disk_def inside_def sign_required_def truthy_def
        sign_broker_tempDir_def path_join_def show_nat.simps digit_char_def default_to_def
        interp_def unlink_if_exists_def rmdir_if_exists_def dns_ip_sign_request_def)
  show "generate_broker_csr
       (disk_env 1700000000000 (openssl_stub (\<lambda>cmd. take 11 cmd = ''openssl req'')))
       ''/app'' dns_ip_broker empty_disk
   = (Response 500
        [(''error'', ''Failed to generate broker CSR''),
         (''message'', ''Command failed: openssl req -new -key /app/temp/broker-1700000000000/broker-private-key.pem -out /app/temp/broker-1700000000000/broker-csr.pem -config /app/temp/broker-1700000000000/broker-openssl.cnf'')],
      \<lparr> files = [], dirs = [] \<rparr>)"
    by (simp add: generate_broker_csr_def respond_def try_catch_def swallow_def io_throw_def
        broker_try_def broker_cleanup_def Let_def io_bind_def io_return_def
        disk_env_def openssl_stub_def empty_disk_def inside_def truthy_def
        broker_tempDir_def path_join_def show_nat.simps digit_char_def default_to_def
        unlink_if_exists_def rmdir_if_exists_def dns_ip_broker_def)
  show "generate_root_ca
       (disk_env 1700000000000 (openssl_stub (\<lambda>cmd. take 16 cmd = ''openssl x509 -in'')))
       ''/app'' empty_ca_body empty_disk
   = (Response 500
        [(''error'', ''Failed to generate Root CA''),
         (''message'', ''Command failed: openssl x509 -in /app/temp/ca-1700000000000/ca-cert.pem -text -noout'')],
      \<lparr> files = [], dirs = [] \<rparr>)"
    by (simp add: generate_root_ca_def respond_def try_catch_def swallow_def io_throw_def
        ca_try_def ca_cleanup_def Let_def io_bind_def io_return_def
        disk_env_def openssl_stub_def empty_disk_def inside_def truthy_def
        ca_tempDir_def path_join_def show_nat.simps digit_char_def default_to_def interp_def
        unlink_if_exists_def rmdir_if_exists_def empty_ca_body_def ca_defaults_def)
qed

section \<open>Scratch directories\<close>

text \<open>
  C9, at two different client requests whose handlers read the same millisecond from the
  clock: the scratch directory is named by \<^verbatim>\<open>Date.now()\<close> alone, so both requests make
  the same directory and write, read and unlink the same three files.
\<close>

theorem scratch_dir_shared_in_same_millisecond:
  "device_001 \<noteq> device_002
   \<and> snd (generate_csr (trace_env 1700000000000 (\<lambda>cmd. False) (\<lambda>p. False))
            ''/app'' device_001 [])
     = [''mkdir /app/temp/1700000000000'',
        ''exec openssl ecparam -name prime256v1 -genkey -noout -out /app/temp/1700000000000/private-key.pem'',
        ''write /app/temp/1700000000000/openssl.cnf'',
        ''exec openssl req -new -key /app/temp/1700000000000/private-key.pem -out /app/temp/1700000000000/csr.pem -config /app/temp/1700000000000/openssl.cnf'',
        ''read /app/temp/1700000000000/private-key.pem'',
        ''read /app/temp/1700000000000/csr.pem'',
        ''exec openssl ec -in /app/temp/1700000000000/private-key.pem -pubout 2>/dev/null'',
        ''exec openssl req -text -noout -in /app/temp/1700000000000/csr.pem'',
        ''unlink /app/temp/1700000000000/private-key.pem'',
        ''unlink /app/temp/1700000000000/csr.pem'',
        ''unlink /app/temp/1700000000000/openssl.cnf'',
        ''rmdir /app/temp/1700000000000'']
   \<and> snd (generate_csr (trace_env 1700000000000 (\<lambda>cmd. False) (\<lambda>p. False))
            ''/app'' device_002 [])
     = snd (generate_csr (trace_env 1700000000000 (\<lambda>cmd. False) (\<lambda>p. False))
            ''/app'' device_001 [])"
  by (simp add: generate_csr_def csr_required_def truthy_def respond_def try_catch_def
      csr_tempDir_def show_nat.simps digit_char_def csr_try_def Let_def io_bind_def
      io_return_def trace_env_def path_join_def device_001_def device_002_def
      default_to_def)

end
